theory Spec2Isabelle
  imports Complex_Main
begin

section \<open>Data model\<close>

text \<open>
  The derived-metrics engine is the hook \<open>useSupabaseData\<close> together with the function
  \<open>calculateProfitLoss\<close> (both in \<open>services/databaseService.ts\<close>, after the
  \<open>DatabaseService\<close> class).
  TypeScript's \<open>number\<close> is modelled by \<open>real\<close> for money, quantities and percentages,
  and by \<open>int\<close> for day counts and clock readings. A calendar date \<open>'YYYY-MM-DD'\<close> is the
  number of days since 1970-01-01; an instant is a number of milliseconds since the epoch.
  Identifiers and names are strings.
\<close>

type_synonym day = int
type_synonym millis = int

record Ingredient =
  ing_id :: string
  ing_name :: string
  ing_unit :: string
  ing_price :: real
  ing_previousPrice :: "real option"
  ing_stockLevel :: real
  ing_reorderPoint :: real
  ing_outletId :: string

record RecipeRow =
  rr_menuItemId :: string
  rr_ingredientId :: string
  rr_quantity :: real

record RecipeComponent =
  rc_ingredientId :: string
  rc_quantity :: real

datatype MarginStatus = Safe | Warning | Danger

record MenuItemData =
  mi_id :: string
  mi_name :: string
  mi_imageUrl :: string
  mi_sellingPrice :: real
  mi_targetMargin :: real
  mi_recipe :: "RecipeComponent list"

record MenuItem = MenuItemData +
  cogs :: real
  actualMargin :: real
  marginStatus :: MarginStatus

section \<open>JavaScript \<open>Map\<close>\<close>

text \<open>
  A \<open>Map\<close> keeps its entries in insertion order; \<open>set\<close> on a key already present
  replaces the value in place, otherwise it appends.
\<close>

type_synonym ('k, 'v) jsmap = "('k \<times> 'v) list"

fun Map_set :: "('k, 'v) jsmap \<Rightarrow> 'k \<Rightarrow> 'v \<Rightarrow> ('k, 'v) jsmap" where
  "Map_set [] k v = [(k, v)]"
| "Map_set ((k', v') # m) k v = (if k' = k then (k, v) # m else (k', v') # Map_set m k v)"

definition Map_get :: "('k, 'v) jsmap \<Rightarrow> 'k \<Rightarrow> 'v option" where
  "Map_get m k = map_of m k"

definition Map_new :: "('k \<times> 'v) list \<Rightarrow> ('k, 'v) jsmap" where
  "Map_new entries = foldl (\<lambda>m (k, v). Map_set m k v) [] entries"

section \<open>JavaScript numbers\<close>

text \<open>
  Money and quantities are read as real numbers, and their sums and products are taken
  exactly. Two computations are carried out in IEEE 754 binary64, because what they return
  depends on it: the two margins of the profit and loss statement, where a zero divisor
  would give NaN or an infinity, and the percent increase of a price, which is compared
  with 10 and rounded to an integer as the double it is. \<open>jsnum\<close> holds a finite value, an
  infinity or NaN, and \<open>roundDouble\<close> rounds a real to the nearest double, ties to even,
  with 53 significant bits, gradual underflow below \<open>2^-1022\<close> and overflow to an infinity
  from \<open>2^1024\<close>. Each of \<open>-\<close>, \<open>/\<close> and \<open>*\<close> rounds once; a zero divisor is read as \<open>+0\<close>.
\<close>

datatype jsnum = Fin real | PosInf | NegInf | NaN

definition roundEven :: "real \<Rightarrow> int" where
  "roundEven r =
     (let f = \<lfloor>r\<rfloor>; d = r - of_int f
      in if d < 1 / 2 then f else if d > 1 / 2 then f + 1 else if even f then f else f + 1)"

definition roundDouble :: "real \<Rightarrow> jsnum" where
  "roundDouble x =
     (if x = 0 then Fin 0
      else (let e = max (\<lfloor>log 2 \<bar>x\<bar>\<rfloor> - 52) (- 1074);
                y = of_int (roundEven (x / 2 powr of_int e)) * 2 powr of_int e
            in if y \<ge> 2 ^ 1024 then PosInf
               else if y \<le> - (2 ^ 1024) then NegInf
               else Fin y))"


fun jsDiv :: "jsnum \<Rightarrow> real \<Rightarrow> jsnum" where
  "jsDiv (Fin a) b =
     (if b = 0 then (if a > 0 then PosInf else if a < 0 then NegInf else NaN)
      else roundDouble (a / b))"
| "jsDiv PosInf b = (if b < 0 then NegInf else PosInf)"
| "jsDiv NegInf b = (if b < 0 then PosInf else NegInf)"
| "jsDiv NaN b = NaN"

fun jsMul :: "jsnum \<Rightarrow> real \<Rightarrow> jsnum" where
  "jsMul (Fin a) b = roundDouble (a * b)"
| "jsMul PosInf b = (if b > 0 then PosInf else if b < 0 then NegInf else NaN)"
| "jsMul NegInf b = (if b > 0 then NegInf else if b < 0 then PosInf else NaN)"
| "jsMul NaN b = NaN"



section \<open>Recipe costing\<close>

text \<open>
  The body of the \<open>menuItemsData.map\<close> callback of the memo \<open>menuItems\<close>: the recipe is
  the join against the recipe rows, \<open>cogs\<close> is the \<open>reduce\<close> over it, and the margin
  status starts at \<open>Safe\<close> and is overwritten by the two tests in the source's order.
\<close>

definition recipeOf :: "RecipeRow list \<Rightarrow> string \<Rightarrow> RecipeComponent list" where
  "recipeOf recipes itemId =
     map (\<lambda>r. \<lparr>rc_ingredientId = rr_ingredientId r, rc_quantity = rr_quantity r\<rparr>)
       (filter (\<lambda>r. rr_menuItemId r = itemId) recipes)"

definition cogsOf :: "(string, Ingredient) jsmap \<Rightarrow> RecipeComponent list \<Rightarrow> real" where
  "cogsOf ingredientsMap recipe =
     foldl (\<lambda>total component.
              (case Map_get ingredientsMap (rc_ingredientId component) of
                 Some ingredient \<Rightarrow> total + ing_price ingredient * rc_quantity component
               | None \<Rightarrow> total + 0))
       0 recipe"

definition actualMarginOf :: "real \<Rightarrow> real \<Rightarrow> real" where
  "actualMarginOf sellingPrice c =
     (if sellingPrice > 0 then ((sellingPrice - c) / sellingPrice) * 100 else 0)"

definition marginStatusOf :: "real \<Rightarrow> real \<Rightarrow> MarginStatus" where
  "marginStatusOf actual target =
     (let marginDifference = actual - target in
      if marginDifference < 0 \<and> marginDifference \<ge> -10 then Warning
      else if marginDifference < -10 then Danger
      else Safe)"

definition costMenuItem ::
  "(string, Ingredient) jsmap \<Rightarrow> RecipeRow list \<Rightarrow> MenuItemData \<Rightarrow> MenuItem" where
  "costMenuItem ingredientsMap recipes item =
     (let recipe = recipeOf recipes (mi_id item);
          c = cogsOf ingredientsMap recipe;
          am = actualMarginOf (mi_sellingPrice item) c
      in \<lparr>mi_id = mi_id item, mi_name = mi_name item, mi_imageUrl = mi_imageUrl item,
          mi_sellingPrice = mi_sellingPrice item, mi_targetMargin = mi_targetMargin item,
          mi_recipe = recipe, cogs = c, actualMargin = am,
          marginStatus = marginStatusOf am (mi_targetMargin item)\<rparr>)"

definition menuItems ::
  "Ingredient list \<Rightarrow> MenuItemData list \<Rightarrow> RecipeRow list \<Rightarrow> MenuItem list" where
  "menuItems ingredients menuItemsData recipes =
     (let ingredientsMap = Map_new (map (\<lambda>i. (ing_id i, i)) ingredients)
      in map (costMenuItem ingredientsMap recipes) menuItemsData)"



section \<open>Dates\<close>

text \<open>
  \<open>new Date('YYYY-MM-DD')\<close> is midnight UTC of that day; \<open>toISOString().split('T')[0]\<close> is
  the UTC day of an instant. The clock reading \<open>new Date()\<close> is the parameter \<open>now\<close>.

  \<open>d.setDate(d.getDate() - n)\<close> works on the local calendar. With ECMAScript's
  \<open>LocalTZA\<close>, the local time of an instant \<open>t\<close> is \<open>t + LocalTZA(t, true)\<close>, the
  day of the month is moved back by \<open>n\<close> with the time within the day kept, and the result
  \<open>w\<close> is turned into an instant as \<open>w - LocalTZA(w, false)\<close>. A time zone is the pair of
  these two offset functions (in milliseconds).
\<close>

definition msPerDay :: int where
  "msPerDay = 1000 * 60 * 60 * 24"

definition Date_of :: "day \<Rightarrow> millis" where
  "Date_of d = d * msPerDay"

definition isoDate :: "millis \<Rightarrow> day" where
  "isoDate t = t div msPerDay"

record TimeZone =
  tz_utc :: "millis \<Rightarrow> millis"
  tz_local :: "millis \<Rightarrow> millis"

definition daysBefore :: "TimeZone \<Rightarrow> millis \<Rightarrow> int \<Rightarrow> millis" where
  "daysBefore z t n =
     (let localTime = t + tz_utc z t;
          moved = localTime - n * msPerDay
      in moved - tz_local z moved)"

text \<open>UTC, and the zones whose offset never changes.\<close>

definition utc :: TimeZone where
  "utc = \<lparr>tz_utc = (\<lambda>t. 0), tz_local = (\<lambda>t. 0)\<rparr>"

definition fixedOffset :: "TimeZone \<Rightarrow> bool" where
  "fixedOffset z \<longleftrightarrow> (\<exists>c. \<forall>t. tz_utc z t = c \<and> tz_local z t = c)"

section \<open>Profit and loss\<close>

record SalesHistoryRecord =
  sh_date :: day
  sh_menuItemId :: string
  sh_quantitySold :: real
  sh_totalRevenue :: real
  sh_outletId :: string

datatype CostInterval = Daily | Monthly

record OperationalCost =
  oc_id :: string
  oc_name :: string
  oc_amount :: real
  oc_interval :: CostInterval
  oc_outletId :: string

record WasteRecord =
  wr_id :: string
  wr_date :: day
  wr_ingredientId :: string
  wr_quantity :: real
  wr_reason :: string
  wr_cost :: real
  wr_outletId :: string

record ProfitLossStats =
  periodDays :: int
  totalRevenue :: real
  totalCogs :: real
  grossProfit :: real
  totalOperationalCost :: real
  totalWasteCost :: real
  netProfit :: real
  grossProfitMargin :: jsnum
  netProfitMargin :: jsnum

text \<open>
  \<open>calculateProfitLoss\<close>. The \<open>forEach\<close> over the relevant sales updates the two running
  totals only inside \<open>if (menuItem)\<close>; the pair of totals is the loop's state. The two
  margins are JavaScript numbers: a division by a zero \<open>totalRevenue\<close> would make them NaN
  or infinite. The function has no \<open>throw\<close> and no access through a reference that may be
  missing, so it has no error result.
\<close>

definition calculateProfitLoss ::
  "TimeZone \<Rightarrow> millis \<Rightarrow> int \<Rightarrow> SalesHistoryRecord list \<Rightarrow> MenuItem list \<Rightarrow> OperationalCost list
     \<Rightarrow> WasteRecord list \<Rightarrow> ProfitLossStats" where
  "calculateProfitLoss z now pd salesHistory costedItems operationalCosts wasteHistory =
     (let menuItemsMap = Map_new (map (\<lambda>item. (mi_id item, item)) costedItems);
          cutoffDate = daysBefore z now pd;
          relevantSales = filter (\<lambda>r. Date_of (sh_date r) \<ge> cutoffDate) salesHistory;
          relevantWaste = filter (\<lambda>r. Date_of (wr_date r) \<ge> cutoffDate) wasteHistory;
          totals = foldl (\<lambda>(tr, tc) sale.
                      (case Map_get menuItemsMap (sh_menuItemId sale) of
                         Some menuItem \<Rightarrow>
                           (tr + sh_totalRevenue sale, tc + cogs menuItem * sh_quantitySold sale)
                       | None \<Rightarrow> (tr, tc)))
                    (0, 0) relevantSales;
          tr = fst totals;
          tc = snd totals;
          toc = foldl (\<lambda>sum cost.
                   (let dailyCost = (if oc_interval cost = Monthly then oc_amount cost / 30
                                     else oc_amount cost)
                    in sum + dailyCost * of_int pd))
                 0 operationalCosts;
          twc = foldl (\<lambda>sum record. sum + wr_cost record) 0 relevantWaste;
          gp = tr - tc;
          np = gp - toc - twc;
          gpm = (if tr > 0 then jsMul (jsDiv (Fin gp) tr) 100 else Fin 0);
          npm = (if tr > 0 then jsMul (jsDiv (Fin np) tr) 100 else Fin 0)
      in \<lparr>periodDays = pd, totalRevenue = tr, totalCogs = tc, grossProfit = gp,
          totalOperationalCost = toc, totalWasteCost = twc, netProfit = np,
          grossProfitMargin = gpm, netProfitMargin = npm\<rparr>)"

text \<open>The sales a statement keeps, and the menu item a sale resolves to.\<close>

definition keptSales ::
  "TimeZone \<Rightarrow> millis \<Rightarrow> int \<Rightarrow> SalesHistoryRecord list \<Rightarrow> SalesHistoryRecord list" where
  "keptSales z now pd salesHistory =
     filter (\<lambda>r. Date_of (sh_date r) \<ge> daysBefore z now pd) salesHistory"

definition menuItemById :: "MenuItem list \<Rightarrow> string \<Rightarrow> MenuItem option" where
  "menuItemById costedItems k = find (\<lambda>m. mi_id m = k) (rev costedItems)"

section \<open>The hook's state and its outlet-scoped views\<close>

record OrderItem =
  oi_ingredientId :: string
  oi_quantityToOrder :: real

record PendingOrder =
  po_id :: string
  po_poNumber :: string
  po_supplierId :: string
  po_supplierName :: string
  po_orderDate :: millis
  po_items :: "OrderItem list"
  po_totalAmount :: real
  po_outletId :: string

record ActiveCampaign =
  ac_campaignName :: string
  ac_marketingCopy :: string
  ac_promoMechanic :: string
  ac_justification :: string
  ac_item1Name :: string
  ac_item2Name :: string
  ac_startDate :: millis

text \<open>
  The \<open>useState\<close> cells of \<open>useSupabaseData\<close> that the metrics read. After every mutation
  the hook reloads all of them from the store, so the same record stands for the store's
  tables.
\<close>

record HookState =
  st_currentOutletId :: string
  st_allIngredients :: "Ingredient list"
  st_menuItemsData :: "MenuItemData list"
  st_recipes :: "RecipeRow list"
  st_allSalesHistory :: "SalesHistoryRecord list"
  st_allOperationalCosts :: "OperationalCost list"
  st_allWasteHistory :: "WasteRecord list"
  st_allPendingOrders :: "PendingOrder list"
  st_activeCampaign :: "ActiveCampaign option"
  st_dateRange :: int

definition hook_ingredients :: "HookState \<Rightarrow> Ingredient list" where
  "hook_ingredients s = filter (\<lambda>i. ing_outletId i = st_currentOutletId s) (st_allIngredients s)"

definition hook_salesHistory :: "HookState \<Rightarrow> SalesHistoryRecord list" where
  "hook_salesHistory s =
     filter (\<lambda>r. sh_outletId r = st_currentOutletId s) (st_allSalesHistory s)"

definition hook_operationalCosts :: "HookState \<Rightarrow> OperationalCost list" where
  "hook_operationalCosts s =
     filter (\<lambda>c. oc_outletId c = st_currentOutletId s) (st_allOperationalCosts s)"

definition hook_wasteHistory :: "HookState \<Rightarrow> WasteRecord list" where
  "hook_wasteHistory s =
     filter (\<lambda>w. wr_outletId w = st_currentOutletId s) (st_allWasteHistory s)"

definition hook_pendingOrders :: "HookState \<Rightarrow> PendingOrder list" where
  "hook_pendingOrders s =
     filter (\<lambda>p. po_outletId p = st_currentOutletId s) (st_allPendingOrders s)"

definition hook_menuItems :: "HookState \<Rightarrow> MenuItem list" where
  "hook_menuItems s = menuItems (hook_ingredients s) (st_menuItemsData s) (st_recipes s)"

definition salesHistoryForRange ::
  "TimeZone \<Rightarrow> millis \<Rightarrow> int \<Rightarrow> SalesHistoryRecord list \<Rightarrow> SalesHistoryRecord list" where
  "salesHistoryForRange z now dateRange salesHistory =
     (let cutoffDate = daysBefore z now dateRange
      in filter (\<lambda>record. Date_of (sh_date record) \<ge> cutoffDate) salesHistory)"

record DashboardStats =
  ds_totalRevenue :: real
  ds_netProfit :: real
  ds_lowStockCount :: nat
  ds_totalItemsSold :: real
  ds_averageMargin :: real

definition dashboardStats :: "TimeZone \<Rightarrow> millis \<Rightarrow> HookState \<Rightarrow> DashboardStats" where
  "dashboardStats z now s =
     (let forRange = salesHistoryForRange z now (st_dateRange s) (hook_salesHistory s);
          tr = foldl (\<lambda>sum record. sum + sh_totalRevenue record) 0 forRange;
          np = netProfit (calculateProfitLoss z now (st_dateRange s) (hook_salesHistory s)
                 (hook_menuItems s) (hook_operationalCosts s) (hook_wasteHistory s));
          lowStock = length (filter (\<lambda>ing. ing_stockLevel ing \<le> ing_reorderPoint ing)
                               (hook_ingredients s));
          sold = foldl (\<lambda>sum record. sum + sh_quantitySold record) 0 forRange;
          avg = (if length (hook_menuItems s) > 0
                 then foldl (\<lambda>sum item. sum + actualMargin item) 0 (hook_menuItems s)
                        / real (length (hook_menuItems s))
                 else 0)
      in \<lparr>ds_totalRevenue = tr, ds_netProfit = np, ds_lowStockCount = lowStock,
          ds_totalItemsSold = sold, ds_averageMargin = avg\<rparr>)"

definition profitLossStats :: "TimeZone \<Rightarrow> millis \<Rightarrow> HookState \<Rightarrow> ProfitLossStats" where
  "profitLossStats z now s =
     calculateProfitLoss z now (st_dateRange s) (hook_salesHistory s) (hook_menuItems s)
       (hook_operationalCosts s) (hook_wasteHistory s)"

section \<open>Campaign performance\<close>

record CampaignPerformance =
  cp_daysRunning :: int
  cp_percentageChange :: real

text \<open>
  The memo \<open>campaignPerformance\<close>, cut at its \<open>const\<close> bindings. \<open>Math.ceil\<close> of the
  elapsed days is \<open>ceiling\<close>; \<open>daysRunning || 1\<close> replaces 0 by 1.
\<close>

definition daysRunningOf :: "millis \<Rightarrow> ActiveCampaign \<Rightarrow> int" where
  "daysRunningOf now c = \<lceil>real_of_int (now - ac_startDate c) / real_of_int msPerDay\<rceil>"

definition orOne :: "int \<Rightarrow> int" where
  "orOne n = (if n = 0 then 1 else n)"

definition involvedItemIds :: "ActiveCampaign \<Rightarrow> MenuItem list \<Rightarrow> string set" where
  "involvedItemIds c costedItems =
     (let involvedItemsMap = Map_set (Map_set [] (ac_item1Name c) True) (ac_item2Name c) True
      in set (map mi_id (filter (\<lambda>m. Map_get involvedItemsMap (mi_name m) \<noteq> None) costedItems)))"

definition avgDailyUnitsDuring ::
  "millis \<Rightarrow> ActiveCampaign \<Rightarrow> MenuItem list \<Rightarrow> SalesHistoryRecord list \<Rightarrow> real" where
  "avgDailyUnitsDuring now c costedItems allSalesHistory =
     (let startDate = ac_startDate c;
          salesDuringCampaign =
            filter (\<lambda>s. Date_of (sh_date s) \<ge> startDate
                         \<and> sh_menuItemId s \<in> involvedItemIds c costedItems) allSalesHistory;
          totalUnitsDuring = foldl (\<lambda>sum s. sum + sh_quantitySold s) 0 salesDuringCampaign
      in totalUnitsDuring / real_of_int (orOne (daysRunningOf now c)))"

definition avgDailyUnitsBefore ::
  "TimeZone \<Rightarrow> millis \<Rightarrow> ActiveCampaign \<Rightarrow> MenuItem list \<Rightarrow> SalesHistoryRecord list \<Rightarrow> real" where
  "avgDailyUnitsBefore z now c costedItems allSalesHistory =
     (let startDate = ac_startDate c;
          beforeStartDate = daysBefore z startDate (daysRunningOf now c);
          salesBeforeCampaign =
            filter (\<lambda>s. (let d = Date_of (sh_date s)
                          in d \<ge> beforeStartDate \<and> d < startDate
                             \<and> sh_menuItemId s \<in> involvedItemIds c costedItems)) allSalesHistory;
          totalUnitsBefore = foldl (\<lambda>sum s. sum + sh_quantitySold s) 0 salesBeforeCampaign
      in totalUnitsBefore / real_of_int (orOne (daysRunningOf now c)))"

definition campaignPerformance ::
  "TimeZone \<Rightarrow> millis \<Rightarrow> ActiveCampaign option \<Rightarrow> MenuItem list \<Rightarrow> SalesHistoryRecord list
     \<Rightarrow> CampaignPerformance option" where
  "campaignPerformance z now activeCampaign costedItems allSalesHistory =
     (case activeCampaign of
        None \<Rightarrow> None
      | Some c \<Rightarrow>
          (let during = avgDailyUnitsDuring now c costedItems allSalesHistory;
               before = avgDailyUnitsBefore z now c costedItems allSalesHistory;
               percentageChange =
                 (if before > 0 then ((during - before) / before) * 100
                  else if during > 0 then 100
                  else 0)
           in Some \<lparr>cp_daysRunning = daysRunningOf now c,
                    cp_percentageChange = percentageChange\<rparr>))"

section \<open>Price-spike alerts\<close>







section \<open>Daily revenue series\<close>

record ChartData =
  cd_labels :: "day list"
  cd_data :: "real list"

text \<open>
  The memo \<open>chartData\<close>. The object \<open>data\<close> is keyed by date strings, so its properties
  keep their insertion order and \<open>Object.values\<close> lists them in that order: assignment
  behaves as \<open>Map_set\<close>. \<open>chartInit\<close> is the \<open>for\<close> loop counting \<open>i\<close> down to 0, with the
  arrays \<open>labels\<close> and \<open>data\<close> as its state.
\<close>

function chartInit ::
  "TimeZone \<Rightarrow> millis \<Rightarrow> int \<Rightarrow> day list \<Rightarrow> (day, real) jsmap \<Rightarrow> day list \<times> (day, real) jsmap" where
  "chartInit z now i labels data =
     (if i \<ge> 0 then
        chartInit z now (i - 1) (labels @ [isoDate (daysBefore z now i)])
          (Map_set data (isoDate (daysBefore z now i)) 0)
      else (labels, data))"
  by pat_completeness auto
termination
  by (relation "measure (\<lambda>(z, now, i, labels, data). nat (i + 1))") auto

declare chartInit.simps [simp del]

definition chartAdd :: "(day, real) jsmap \<Rightarrow> SalesHistoryRecord \<Rightarrow> (day, real) jsmap" where
  "chartAdd data record =
     (case Map_get data (sh_date record) of
        Some v \<Rightarrow> Map_set data (sh_date record) (v + sh_totalRevenue record)
      | None \<Rightarrow> data)"

definition chartData ::
  "TimeZone \<Rightarrow> millis \<Rightarrow> int \<Rightarrow> SalesHistoryRecord list \<Rightarrow> ChartData" where
  "chartData z now dateRange forRange =
     (let init = chartInit z now (dateRange - 1) [] [];
          data = foldl chartAdd (snd init) forRange
      in \<lparr>cd_labels = fst init, cd_data = map snd data\<rparr>)"

definition hook_chartData :: "TimeZone \<Rightarrow> millis \<Rightarrow> HookState \<Rightarrow> ChartData" where
  "hook_chartData z now s =
     chartData z now (st_dateRange s)
       (salesHistoryForRange z now (st_dateRange s) (hook_salesHistory s))"

text \<open>The revenue recorded on one calendar day.\<close>

definition revenueOn :: "SalesHistoryRecord list \<Rightarrow> day \<Rightarrow> real" where
  "revenueOn salesHistory d =
     sum_list (map sh_totalRevenue (filter (\<lambda>r. sh_date r = d) salesHistory))"

section \<open>Mutations\<close>

text \<open>
  Every mutation of the hook writes to the store through \<open>DatabaseService\<close> and then
  reloads the whole snapshot, so a mutation maps the tables before to the tables after.
  The store calls are modelled by their effect on the tables; a call for which the store
  reports an error makes the source rethrow that error.
\<close>

datatype StoreError = StoreError

record MutationResult =
  res_success :: bool
  res_message :: "string option"

text \<open>
  \<open>DatabaseService.deleteIngredient\<close>: the row is deleted, and with it (the schema's
  \<open>ON DELETE CASCADE\<close>) the recipe rows and waste records that reference it.
\<close>

definition DatabaseService_deleteIngredient :: "string \<Rightarrow> HookState \<Rightarrow> HookState" where
  "DatabaseService_deleteIngredient ingredientId s =
     s\<lparr>st_allIngredients := filter (\<lambda>i. ing_id i \<noteq> ingredientId) (st_allIngredients s),
       st_recipes := filter (\<lambda>r. rr_ingredientId r \<noteq> ingredientId) (st_recipes s),
       st_allWasteHistory :=
         filter (\<lambda>w. wr_ingredientId w \<noteq> ingredientId) (st_allWasteHistory s)\<rparr>"

text \<open>
  The hook's \<open>deleteIngredient\<close>. \<open>storeError\<close> is the error the store reports for the
  delete call, if any; the refusal returns before any store call.
\<close>

definition deleteIngredient ::
  "StoreError option \<Rightarrow> string \<Rightarrow> HookState \<Rightarrow> StoreError + (MutationResult \<times> HookState)" where
  "deleteIngredient storeError ingredientId s =
     (let isUsedInRecipe = list_ex (\<lambda>r. rr_ingredientId r = ingredientId) (st_recipes s)
      in if isUsedInRecipe then
           Inr (\<lparr>res_success = False,
                 res_message = Some ''Bahan ini masih digunakan dalam resep. Hapus dari resep terlebih dahulu.''\<rparr>,
                s)
         else (case storeError of
                 Some e \<Rightarrow> Inl e
               | None \<Rightarrow> Inr (\<lparr>res_success = True, res_message = None\<rparr>,
                              DatabaseService_deleteIngredient ingredientId s)))"

text \<open>\<open>DatabaseService.updateIngredient(id, { stockLevel })\<close> on the ingredient rows.\<close>

definition updateIngredient_stockLevel ::
  "string \<Rightarrow> real \<Rightarrow> Ingredient list \<Rightarrow> Ingredient list" where
  "updateIngredient_stockLevel ingredientId v rows =
     map (\<lambda>i. if ing_id i = ingredientId then i\<lparr>ing_stockLevel := v\<rparr> else i) rows"

text \<open>
  The hook's \<open>updateIngredientStock\<close>: the given value is written as it comes.
  \<open>storeError\<close> is the error the store reports for the update call, if any.
\<close>

definition updateIngredientStock ::
  "StoreError option \<Rightarrow> string \<Rightarrow> real \<Rightarrow> HookState \<Rightarrow> StoreError + HookState" where
  "updateIngredientStock storeError ingredientId newStock s =
     (case storeError of
        Some e \<Rightarrow> Inl e
      | None \<Rightarrow> Inr (s\<lparr>st_allIngredients :=
                         updateIngredient_stockLevel ingredientId newStock
                           (st_allIngredients s)\<rparr>))"

text \<open>\<open>m.set(k, (m.get(k) || 0) + x)\<close>.\<close>

definition Map_add :: "(string, real) jsmap \<Rightarrow> string \<Rightarrow> real \<Rightarrow> (string, real) jsmap" where
  "Map_add m k x = Map_set m k ((case Map_get m k of Some v \<Rightarrow> v | None \<Rightarrow> 0) + x)"

record WasteInput =
  wi_date :: day
  wi_ingredientId :: string
  wi_quantity :: real
  wi_reason :: string

text \<open>\<open>addWasteRecord\<close>; \<open>newId\<close> is the id the store generates for the new row.\<close>

definition addWasteRecord :: "string \<Rightarrow> WasteInput \<Rightarrow> HookState \<Rightarrow> HookState" where
  "addWasteRecord newId record s =
     (case find (\<lambda>i. ing_id i = wi_ingredientId record) (hook_ingredients s) of
        None \<Rightarrow> s
      | Some ingredient \<Rightarrow>
          (let cost = ing_price ingredient * wi_quantity record
           in s\<lparr>st_allWasteHistory := st_allWasteHistory s @
                   [\<lparr>wr_id = newId, wr_date = wi_date record,
                     wr_ingredientId = wi_ingredientId record,
                     wr_quantity = wi_quantity record, wr_reason = wi_reason record,
                     wr_cost = cost, wr_outletId = st_currentOutletId s\<rparr>],
                 st_allIngredients :=
                   updateIngredient_stockLevel (wi_ingredientId record)
                     (max 0 (ing_stockLevel ingredient - wi_quantity record))
                     (st_allIngredients s)\<rparr>))"

definition receiveStock :: "string \<Rightarrow> HookState \<Rightarrow> HookState" where
  "receiveStock orderId s =
     (case find (\<lambda>po. po_id po = orderId) (hook_pendingOrders s) of
        None \<Rightarrow> s
      | Some order \<Rightarrow>
          (let updatedStockMap =
                 foldl (\<lambda>m item. Map_add m (oi_ingredientId item) (oi_quantityToOrder item))
                   [] (po_items order);
               rows =
                 foldl (\<lambda>rows (ingredientId, additionalStock).
                          (case find (\<lambda>i. ing_id i = ingredientId) (st_allIngredients s) of
                             Some ingredient \<Rightarrow>
                               updateIngredient_stockLevel ingredientId
                                 (ing_stockLevel ingredient + additionalStock) rows
                           | None \<Rightarrow> rows))
                   (st_allIngredients s) updatedStockMap
           in s\<lparr>st_allIngredients := rows,
                 st_allPendingOrders :=
                   filter (\<lambda>po. po_id po \<noteq> orderId) (st_allPendingOrders s)\<rparr>))"

text \<open>
  \<open>processDailySales\<close>. \<open>sales\<close> is the record from menu item id to units sold;
  \<open>sales[id] || 0\<close> reads a missing entry as 0. The loop over the menu items carries the
  inserted sales rows and the map \<open>ingredientsToUpdate\<close>; \<open>recordSale\<close> is its body and
  \<open>consumeRecipe\<close> the inner \<open>forEach\<close> over the recipe.
\<close>

definition soldCountOf :: "(string \<rightharpoonup> real) \<Rightarrow> 'a MenuItem_scheme \<Rightarrow> real" where
  "soldCountOf sales menuItem = (case sales (mi_id menuItem) of Some q \<Rightarrow> q | None \<Rightarrow> 0)"

definition consumeRecipe ::
  "Ingredient list \<Rightarrow> real \<Rightarrow> (string, real) jsmap \<Rightarrow> RecipeComponent list
     \<Rightarrow> (string, real) jsmap" where
  "consumeRecipe currentOutletIngredients soldCount ingredientsToUpdate recipe =
     foldl (\<lambda>m component.
              (case find (\<lambda>i. ing_id i = rc_ingredientId component) currentOutletIngredients of
                 Some outletIngredient \<Rightarrow>
                   Map_add m (ing_id outletIngredient) (rc_quantity component * soldCount)
               | None \<Rightarrow> m))
       ingredientsToUpdate recipe"

definition recordSale ::
  "day \<Rightarrow> string \<Rightarrow> (string \<rightharpoonup> real) \<Rightarrow> Ingredient list
     \<Rightarrow> SalesHistoryRecord list \<times> (string, real) jsmap \<Rightarrow> MenuItem
     \<Rightarrow> SalesHistoryRecord list \<times> (string, real) jsmap" where
  "recordSale today outletId sales currentOutletIngredients st menuItem =
     (let soldCount = soldCountOf sales menuItem
      in if soldCount > 0 then
           (fst st @
              [\<lparr>sh_date = today, sh_menuItemId = mi_id menuItem,
                sh_quantitySold = soldCount,
                sh_totalRevenue = soldCount * mi_sellingPrice menuItem,
                sh_outletId = outletId\<rparr>],
            consumeRecipe currentOutletIngredients soldCount (snd st) (mi_recipe menuItem))
         else st)"

definition processDailySales ::
  "millis \<Rightarrow> (string \<rightharpoonup> real) \<Rightarrow> HookState \<Rightarrow> HookState" where
  "processDailySales now sales s =
     (let today = isoDate now;
          currentOutletIngredients = hook_ingredients s;
          loop = foldl (recordSale today (st_currentOutletId s) sales currentOutletIngredients)
                   (st_allSalesHistory s, []) (hook_menuItems s);
          rows = foldl (\<lambda>rows (ingredientId, consumption).
                    (case find (\<lambda>i. ing_id i = ingredientId) (hook_ingredients s) of
                       Some ingredient \<Rightarrow>
                         updateIngredient_stockLevel ingredientId
                           (max 0 (ing_stockLevel ingredient - consumption)) rows
                     | None \<Rightarrow> rows))
                   (st_allIngredients s) (snd loop)
      in s\<lparr>st_allSalesHistory := fst loop, st_allIngredients := rows\<rparr>)"

text \<open>
  What the sales of a day consume of an ingredient, whether they touch it at all, and
  the quantity of an ingredient on an order.
\<close>

definition salesConsumption :: "(string \<rightharpoonup> real) \<Rightarrow> MenuItem list \<Rightarrow> string \<Rightarrow> real" where
  "salesConsumption sales costedItems k =
     sum_list (map (\<lambda>m. if soldCountOf sales m > 0
                         then sum_list (map (\<lambda>c. rc_quantity c * soldCountOf sales m)
                                (filter (\<lambda>c. rc_ingredientId c = k) (mi_recipe m)))
                         else 0) costedItems)"

definition consumedBySales :: "(string \<rightharpoonup> real) \<Rightarrow> MenuItem list \<Rightarrow> string \<Rightarrow> bool" where
  "consumedBySales sales costedItems k \<longleftrightarrow>
     list_ex (\<lambda>m. soldCountOf sales m > 0 \<and> list_ex (\<lambda>c. rc_ingredientId c = k) (mi_recipe m))
       costedItems"

text \<open>
  The amounts the loop of \<open>processDailySales\<close> adds to \<open>ingredientsToUpdate\<close>, in order:
  one per recipe component of a sold menu item whose ingredient the outlet has.
\<close>

definition salesContributions ::
  "(string \<rightharpoonup> real) \<Rightarrow> Ingredient list \<Rightarrow> MenuItem list \<Rightarrow> (string \<times> real) list" where
  "salesContributions sales currentOutletIngredients costedItems =
     concat (map (\<lambda>m. if soldCountOf sales m > 0
                       then map (\<lambda>c. (rc_ingredientId c, rc_quantity c * soldCountOf sales m))
                              (filter (\<lambda>c. rc_ingredientId c \<in> ing_id ` set currentOutletIngredients)
                                 (mi_recipe m))
                       else []) costedItems)"

definition orderedQuantity :: "PendingOrder \<Rightarrow> string \<Rightarrow> real" where
  "orderedQuantity order k =
     sum_list (map oi_quantityToOrder (filter (\<lambda>item. oi_ingredientId item = k) (po_items order)))"

section \<open>Sample data\<close>

definition ex_flour :: Ingredient where
  "ex_flour = \<lparr>ing_id = ''i1'', ing_name = ''Flour'', ing_unit = ''kg'', ing_price = 20,
     ing_previousPrice = None, ing_stockLevel = 10, ing_reorderPoint = 2, ing_outletId = ''o1''\<rparr>"

definition ex_recipes :: "RecipeRow list" where
  "ex_recipes =
     [\<lparr>rr_menuItemId = ''m1'', rr_ingredientId = ''i1'', rr_quantity = 3\<rparr>,
      \<lparr>rr_menuItemId = ''m1'', rr_ingredientId = ''gone'', rr_quantity = 5\<rparr>,
      \<lparr>rr_menuItemId = ''m2'', rr_ingredientId = ''i1'', rr_quantity = 3\<rparr>,
      \<lparr>rr_menuItemId = ''m3'', rr_ingredientId = ''i1'', rr_quantity = 3\<rparr>]"

definition ex_item :: "string \<Rightarrow> string \<Rightarrow> real \<Rightarrow> real \<Rightarrow> MenuItemData" where
  "ex_item i n p t = \<lparr>mi_id = i, mi_name = n, mi_imageUrl = [], mi_sellingPrice = p,
     mi_targetMargin = t, mi_recipe = []\<rparr>"

definition ex_sale :: "day \<Rightarrow> string \<Rightarrow> real \<Rightarrow> real \<Rightarrow> SalesHistoryRecord" where
  "ex_sale d m q r = \<lparr>sh_date = d, sh_menuItemId = m, sh_quantitySold = q,
     sh_totalRevenue = r, sh_outletId = ''o1''\<rparr>"

definition ex_rent :: OperationalCost where
  "ex_rent = \<lparr>oc_id = ''c1'', oc_name = ''Rent'', oc_amount = 300, oc_interval = Monthly,
     oc_outletId = ''o1''\<rparr>"

definition ex_waste :: "day \<Rightarrow> real \<Rightarrow> WasteRecord" where
  "ex_waste d c = \<lparr>wr_id = ''w1'', wr_date = d, wr_ingredientId = ''i1'', wr_quantity = 1,
     wr_reason = ''Spoiled'', wr_cost = c, wr_outletId = ''o1''\<rparr>"

text \<open>A clock reading: noon UTC of day 1000.\<close>

definition ex_now :: millis where
  "ex_now = 1000 * msPerDay + 43200000"

definition ex_state :: HookState where
  "ex_state = \<lparr>st_currentOutletId = ''o1'',
     st_allIngredients = [ex_flour],
     st_menuItemsData = [ex_item ''m1'' ''Bread'' 100 40],
     st_recipes = ex_recipes,
     st_allSalesHistory = [ex_sale 999 ''m1'' 2 200, ex_sale 998 ''ghost'' 1 50],
     st_allOperationalCosts = [ex_rent],
     st_allWasteHistory = [ex_waste 999 25],
     st_allPendingOrders = [],
     st_activeCampaign = None,
     st_dateRange = 30\<rparr>"

definition ex_campaign :: ActiveCampaign where
  "ex_campaign = \<lparr>ac_campaignName = ''Duo'', ac_marketingCopy = [], ac_promoMechanic = [],
     ac_justification = [], ac_item1Name = ''Bread'', ac_item2Name = ''Bun'',
     ac_startDate = 997 * msPerDay\<rparr>"


definition ex_salt :: Ingredient where
  "ex_salt = \<lparr>ing_id = ''i2'', ing_name = ''Salt'', ing_unit = ''kg'', ing_price = 5,
     ing_previousPrice = None, ing_stockLevel = 1, ing_reorderPoint = 2, ing_outletId = ''o1''\<rparr>"

definition ex_order :: PendingOrder where
  "ex_order = \<lparr>po_id = ''p1'', po_poNumber = ''PO-1'', po_supplierId = ''s1'',
     po_supplierName = ''Mill'', po_orderDate = 0,
     po_items = [\<lparr>oi_ingredientId = ''i1'', oi_quantityToOrder = 5\<rparr>],
     po_totalAmount = 100, po_outletId = ''o1''\<rparr>"

definition ex_store :: HookState where
  "ex_store = ex_state\<lparr>st_allIngredients := [ex_flour, ex_salt],
     st_allPendingOrders := [ex_order]\<rparr>"

text \<open>
  The same store with an order for a negative quantity, and the same store while another
  outlet is selected.
\<close>

definition ex_returned :: HookState where
  "ex_returned = ex_store\<lparr>st_allPendingOrders :=
     [ex_order\<lparr>po_items := [\<lparr>oi_ingredientId = ''i1'', oi_quantityToOrder = - 50\<rparr>]\<rparr>]\<rparr>"

definition ex_elsewhere :: HookState where
  "ex_elsewhere = ex_store\<lparr>st_currentOutletId := ''o2''\<rparr>"

text \<open>
  New York in 2021: five hours behind UTC, four from 2021-03-14 07:00 UTC (day 18700)
  until 2021-11-07 06:00 UTC (day 18938). A local time that a shift of the clock skips or
  repeats is read with the offset in force before the shift, as \<open>LocalTZA(t, false)\<close> does.
\<close>

definition ex_newYork :: TimeZone where
  "ex_newYork =
     \<lparr>tz_utc = (\<lambda>t. if t < 18700 * msPerDay + 7 * 3600000 then - 5 * 3600000
                    else if t < 18938 * msPerDay + 6 * 3600000 then - 4 * 3600000
                    else - 5 * 3600000),
      tz_local = (\<lambda>w. if w < 18700 * msPerDay + 3 * 3600000 then - 5 * 3600000
                      else if w < 18938 * msPerDay + 2 * 3600000 then - 4 * 3600000
                      else - 5 * 3600000)\<rparr>"

text \<open>Two clock readings: 2021-11-08 00:30 UTC and 2021-03-14 23:30 UTC.\<close>

definition ex_autumn :: millis where
  "ex_autumn = 18939 * msPerDay + 1800000"

definition ex_spring :: millis where
  "ex_spring = 18700 * msPerDay + 84600000"

section \<open>Moving a date back by whole days\<close>

lemma daysBefore_fixedOffset: "fixedOffset z \<Longrightarrow> daysBefore z t n = t - n * msPerDay"
  by (auto simp: fixedOffset_def daysBefore_def Let_def)

lemma fixedOffset_utc: "fixedOffset utc"
  by (simp add: fixedOffset_def utc_def)

lemma daysBefore_utc: "daysBefore utc t n = t - n * msPerDay"
  by (simp add: daysBefore_fixedOffset fixedOffset_utc)

section \<open>Properties of the Map model\<close>

lemma map_of_Map_set: "map_of (Map_set m k v) = (map_of m)(k \<mapsto> v)"
  by (induction m) (auto simp: fun_eq_iff)

lemma map_of_foldl_Map_set:
  "map_of (foldl (\<lambda>m (k, v). Map_set m k v) m0 entries) = map_of m0 ++ map_of (rev entries)"
proof (induction entries arbitrary: m0)
  case Nil
  show ?case by simp
next
  case (Cons e entries)
  obtain k v where e: "e = (k, v)" by (cases e)
  have "map_of (foldl (\<lambda>m (k, v). Map_set m k v) m0 (e # entries))
        = map_of (Map_set m0 k v) ++ map_of (rev entries)"
    using Cons.IH [of "Map_set m0 k v"] by (simp add: e)
  also have "\<dots> = map_of m0 ++ map_of (rev (e # entries))"
    by (simp add: map_of_Map_set e fun_eq_iff map_add_def split: option.splits)
  finally show ?case .
qed

lemma Map_get_Map_new: "Map_get (Map_new entries) k = map_of (rev entries) k"
  by (simp add: Map_get_def Map_new_def map_of_foldl_Map_set)

lemma map_of_keyed_find:
  "map_of (map (\<lambda>x. (f x, x)) xs) k = find (\<lambda>x. f x = k) xs"
  by (induction xs) auto

lemma Map_get_Map_new_keyed:
  "Map_get (Map_new (map (\<lambda>x. (f x, x)) xs)) k = find (\<lambda>x. f x = k) (rev xs)"
  by (simp add: Map_get_Map_new rev_map map_of_keyed_find)


section \<open>Recipe costing: cost of goods sold and margin\<close>





section \<open>Margin status\<close>



section \<open>Profit and loss statement\<close>

lemma foldl_totals:
  "foldl (\<lambda>(tr, tc) sale.
       (case g sale of
          Some m \<Rightarrow> (tr + f sale, tc + h m sale)
        | None \<Rightarrow> (tr, tc)))
     (a, b) xs
   = (a + sum_list (map (\<lambda>x. case g x of Some m \<Rightarrow> f x | None \<Rightarrow> (0::real)) xs),
      b + sum_list (map (\<lambda>x. case g x of Some m \<Rightarrow> h m x | None \<Rightarrow> (0::real)) xs) :: real)"
  by (induction xs arbitrary: a b) (auto split: option.splits)

lemma sum_list_filter_zero:
  "sum_list (map (\<lambda>x. if P x then f x else (0::real)) xs) = sum_list (map f (filter P xs))"
  by (induction xs) simp_all

lemma menuItemById_None: "menuItemById costedItems k = None \<longleftrightarrow> k \<notin> mi_id ` set costedItems"
  by (auto simp: menuItemById_def find_None_iff)

lemma calculateProfitLoss_totalRevenue:
  "totalRevenue (calculateProfitLoss z now pd salesHistory costedItems operationalCosts wasteHistory)
     = sum_list (map sh_totalRevenue
         (filter (\<lambda>s. sh_menuItemId s \<in> mi_id ` set costedItems) (keptSales z now pd salesHistory)))"
proof -
  have "totalRevenue (calculateProfitLoss z now pd salesHistory costedItems operationalCosts wasteHistory)
        = sum_list (map (\<lambda>s. case menuItemById costedItems (sh_menuItemId s) of
                               Some m \<Rightarrow> sh_totalRevenue s | None \<Rightarrow> 0)
            (keptSales z now pd salesHistory))"
    by (simp add: calculateProfitLoss_def Let_def foldl_totals keptSales_def
          Map_get_Map_new_keyed menuItemById_def)
  also have "(\<lambda>s. case menuItemById costedItems (sh_menuItemId s) of
                    Some m \<Rightarrow> sh_totalRevenue s | None \<Rightarrow> 0)
           = (\<lambda>s. if sh_menuItemId s \<in> mi_id ` set costedItems then sh_totalRevenue s else 0)"
  proof
    fix s
    show "(case menuItemById costedItems (sh_menuItemId s) of
             Some m \<Rightarrow> sh_totalRevenue s | None \<Rightarrow> 0)
        = (if sh_menuItemId s \<in> mi_id ` set costedItems then sh_totalRevenue s else 0)"
      using menuItemById_None [of costedItems "sh_menuItemId s"]
      by (cases "menuItemById costedItems (sh_menuItemId s)") auto
  qed
  finally show ?thesis by (simp add: sum_list_filter_zero)
qed

lemma calculateProfitLoss_totalCogs:
  "totalCogs (calculateProfitLoss z now pd salesHistory costedItems operationalCosts wasteHistory)
     = sum_list (map (\<lambda>s. case menuItemById costedItems (sh_menuItemId s) of
                             Some m \<Rightarrow> cogs m * sh_quantitySold s | None \<Rightarrow> 0)
         (keptSales z now pd salesHistory))"
  by (simp add: calculateProfitLoss_def Let_def foldl_totals keptSales_def
        Map_get_Map_new_keyed menuItemById_def)

text \<open>
  C1 (as amended). In the statement for a period of \<open>P\<close> days, \<open>totalRevenue\<close> is the sum of
  \<open>sale.totalRevenue\<close> over the kept sales (date at or after \<open>now - P\<close> days) whose menu
  item is in the menu list, and \<open>totalCogs\<close> is the sum of \<open>cogs * quantitySold\<close> over the
  same sales: a kept sale whose menu item is missing adds to neither total.
\<close>

theorem C1_profit_loss_totals:
  "totalRevenue (calculateProfitLoss z now pd salesHistory costedItems operationalCosts wasteHistory)
     = sum_list (map sh_totalRevenue
         (filter (\<lambda>s. sh_menuItemId s \<in> mi_id ` set costedItems) (keptSales z now pd salesHistory)))
   \<and> totalCogs (calculateProfitLoss z now pd salesHistory costedItems operationalCosts wasteHistory)
     = sum_list (map (\<lambda>s. case menuItemById costedItems (sh_menuItemId s) of
                             Some m \<Rightarrow> cogs m * sh_quantitySold s | None \<Rightarrow> 0)
         (keptSales z now pd salesHistory))"
  using calculateProfitLoss_totalRevenue calculateProfitLoss_totalCogs by simp

lemma ex_hook_menuItems:
  "hook_menuItems ex_state =
     [\<lparr>mi_id = ''m1'', mi_name = ''Bread'', mi_imageUrl = [], mi_sellingPrice = 100,
       mi_targetMargin = 40,
       mi_recipe = [\<lparr>rc_ingredientId = ''i1'', rc_quantity = 3\<rparr>,
                    \<lparr>rc_ingredientId = ''gone'', rc_quantity = 5\<rparr>],
       cogs = 60, actualMargin = 40, marginStatus = Safe\<rparr>]"
  by (simp add: hook_menuItems_def hook_ingredients_def ex_state_def menuItems_def
        costMenuItem_def Let_def recipeOf_def ex_recipes_def ex_item_def ex_flour_def cogsOf_def
        Map_new_def Map_get_def actualMarginOf_def marginStatusOf_def)

lemma ex_keptSales:
  "keptSales utc ex_now 30 (hook_salesHistory ex_state)
     = [ex_sale 999 ''m1'' 2 200, ex_sale 998 ''ghost'' 1 50]"
  by (simp add: keptSales_def hook_salesHistory_def ex_state_def ex_sale_def ex_now_def
        Date_of_def daysBefore_utc msPerDay_def)

theorem C1_profit_loss_totals_witness:
  "totalRevenue (calculateProfitLoss utc ex_now 30 (hook_salesHistory ex_state)
      (hook_menuItems ex_state) [] []) = 200
   \<and> totalCogs (calculateProfitLoss utc ex_now 30 (hook_salesHistory ex_state)
      (hook_menuItems ex_state) [] []) = 120"
  using C1_profit_loss_totals [of utc ex_now 30 "hook_salesHistory ex_state"
          "hook_menuItems ex_state" "[]" "[]"]
  by (simp add: ex_keptSales ex_hook_menuItems menuItemById_def ex_sale_def)

text \<open>
  The claim as written fails: a kept sale whose menu item is missing does not add its
  \<open>totalRevenue\<close> to the statement.
\<close>

theorem C1_missing_item_revenue_counterexample:
  "sh_menuItemId (ex_sale 998 ''ghost'' 1 50) \<notin> mi_id ` set (hook_menuItems ex_state)
   \<and> ex_sale 998 ''ghost'' 1 50 \<in> set (keptSales utc ex_now 30 (hook_salesHistory ex_state))
   \<and> sum_list (map sh_totalRevenue (keptSales utc ex_now 30 (hook_salesHistory ex_state))) = 250
   \<and> totalRevenue (calculateProfitLoss utc ex_now 30 (hook_salesHistory ex_state)
        (hook_menuItems ex_state) [] []) = 200
   \<and> totalRevenue (calculateProfitLoss utc ex_now 30 (hook_salesHistory ex_state)
        (hook_menuItems ex_state) [] [])
      \<noteq> sum_list (map sh_totalRevenue (keptSales utc ex_now 30 (hook_salesHistory ex_state)))"
  by (simp add: calculateProfitLoss_totalRevenue ex_keptSales ex_hook_menuItems ex_sale_def)

section \<open>Dashboard and statement agree\<close>

text \<open>
  C10. For the same snapshot, window length and clock reading, the \<open>netProfit\<close> of the
  dashboard statistics is the \<open>netProfit\<close> of the profit and loss statement: both come from
  \<open>calculateProfitLoss\<close> on the same arguments.
\<close>

theorem C10_dashboard_netProfit:
  "ds_netProfit (dashboardStats z now s) = netProfit (profitLossStats z now s)
   \<and> profitLossStats z now s
       = calculateProfitLoss z now (st_dateRange s) (hook_salesHistory s) (hook_menuItems s)
           (hook_operationalCosts s) (hook_wasteHistory s)"
  by (simp add: dashboardStats_def profitLossStats_def Let_def)

theorem C10_dashboard_netProfit_witness:
  "ds_netProfit (dashboardStats utc ex_now ex_state) = netProfit (profitLossStats utc ex_now ex_state)
   \<and> netProfit (profitLossStats utc ex_now ex_state) = - 245"
proof -
  have v: "hook_salesHistory ex_state = [ex_sale 999 ''m1'' 2 200, ex_sale 998 ''ghost'' 1 50]"
    "hook_operationalCosts ex_state = [ex_rent]" "hook_wasteHistory ex_state = [ex_waste 999 25]"
    "st_dateRange ex_state = 30"
    by (simp_all add: hook_salesHistory_def hook_operationalCosts_def hook_wasteHistory_def
          ex_state_def ex_sale_def ex_rent_def ex_waste_def)
  have "netProfit (profitLossStats utc ex_now ex_state) = - 245"
    by (simp add: profitLossStats_def calculateProfitLoss_def Let_def ex_hook_menuItems v
          ex_sale_def ex_rent_def ex_waste_def ex_now_def Date_of_def daysBefore_utc msPerDay_def
          Map_new_def Map_get_def)
  then show ?thesis
    using C10_dashboard_netProfit [of utc ex_now ex_state] by simp
qed

section \<open>Campaign performance evaluator\<close>

text \<open>
  C7. The evaluator returns nothing when no campaign is active. Otherwise it returns
  \<open>daysRunning\<close> and \<open>percentageChange\<close>, where \<open>percentageChange\<close> is
  \<open>(during - before) / before * 100\<close> when the average daily units before the campaign are
  positive, 100 when they are 0 and the average during the campaign is positive, and 0 when
  both averages are 0.
\<close>

theorem C7_campaign_performance:
  "campaignPerformance z now None costedItems allSalesHistory = None
   \<and> (let during = avgDailyUnitsDuring now c costedItems allSalesHistory;
          before = avgDailyUnitsBefore z now c costedItems allSalesHistory
      in \<exists>pc. campaignPerformance z now (Some c) costedItems allSalesHistory
                 = Some \<lparr>cp_daysRunning = daysRunningOf now c, cp_percentageChange = pc\<rparr>
             \<and> (before > 0 \<longrightarrow> pc = (during - before) / before * 100)
             \<and> (before = 0 \<and> during > 0 \<longrightarrow> pc = 100)
             \<and> (before = 0 \<and> during = 0 \<longrightarrow> pc = 0))"
  by (simp add: campaignPerformance_def Let_def)

lemma ex_startDate: "ac_startDate ex_campaign = 997 * msPerDay" 
  by (simp add: ex_campaign_def)

lemma ex_daysRunning: "daysRunningOf ex_now ex_campaign = 4"
  by (simp add: daysRunningOf_def ex_now_def ex_campaign_def msPerDay_def)

lemma ex_involved: "involvedItemIds ex_campaign (hook_menuItems ex_state) = {''m1''}"
  by (auto simp: involvedItemIds_def ex_hook_menuItems ex_campaign_def Map_get_def Let_def)

lemma ex_avg_during:
  "avgDailyUnitsDuring ex_now ex_campaign (hook_menuItems ex_state)
     [ex_sale 999 ''m1'' 12 1200, ex_sale 995 ''m1'' 4 400] = 3"
  "avgDailyUnitsDuring ex_now ex_campaign (hook_menuItems ex_state)
     [ex_sale 999 ''m1'' 12 1200] = 3"
  "avgDailyUnitsDuring ex_now ex_campaign (hook_menuItems ex_state) [] = 0"
  by (simp_all add: avgDailyUnitsDuring_def Let_def ex_daysRunning ex_involved orOne_def
        ex_sale_def Date_of_def msPerDay_def ex_startDate)

lemma ex_avg_before:
  "avgDailyUnitsBefore utc ex_now ex_campaign (hook_menuItems ex_state)
     [ex_sale 999 ''m1'' 12 1200, ex_sale 995 ''m1'' 4 400] = 1"
  "avgDailyUnitsBefore utc ex_now ex_campaign (hook_menuItems ex_state)
     [ex_sale 999 ''m1'' 12 1200] = 0"
  "avgDailyUnitsBefore utc ex_now ex_campaign (hook_menuItems ex_state) [] = 0"
  by (simp_all add: avgDailyUnitsBefore_def Let_def ex_daysRunning ex_involved orOne_def
        ex_sale_def Date_of_def daysBefore_utc msPerDay_def ex_startDate)

theorem C7_campaign_performance_witness:
  "campaignPerformance utc ex_now None (hook_menuItems ex_state) [ex_sale 999 ''m1'' 12 1200] = None
   \<and> campaignPerformance utc ex_now (Some ex_campaign) (hook_menuItems ex_state)
       [ex_sale 999 ''m1'' 12 1200, ex_sale 995 ''m1'' 4 400]
       = Some \<lparr>cp_daysRunning = 4, cp_percentageChange = 200\<rparr>
   \<and> campaignPerformance utc ex_now (Some ex_campaign) (hook_menuItems ex_state)
       [ex_sale 999 ''m1'' 12 1200]
       = Some \<lparr>cp_daysRunning = 4, cp_percentageChange = 100\<rparr>
   \<and> campaignPerformance utc ex_now (Some ex_campaign) (hook_menuItems ex_state) []
       = Some \<lparr>cp_daysRunning = 4, cp_percentageChange = 0\<rparr>"
  using C7_campaign_performance [of utc ex_now "hook_menuItems ex_state"
      "[ex_sale 999 ''m1'' 12 1200]" ex_campaign]
    C7_campaign_performance [of utc ex_now "hook_menuItems ex_state"
      "[ex_sale 999 ''m1'' 12 1200, ex_sale 995 ''m1'' 4 400]" ex_campaign]
    C7_campaign_performance [of utc ex_now "hook_menuItems ex_state" "[]" ex_campaign]
  by (auto simp: Let_def ex_avg_during ex_avg_before ex_daysRunning)

section \<open>Rounding to a double\<close>






section \<open>Ratios with a zero denominator\<close>




section \<open>Price-spike alerts\<close>











section \<open>Daily revenue series\<close>

lemma isoDate_daysBefore:
  assumes "fixedOffset z"
  shows "isoDate (daysBefore z now i) = isoDate now - i"
proof -
  have "(now + (- i) * msPerDay) div msPerDay = - i + now div msPerDay"
    by (simp add: msPerDay_def)
  then show ?thesis by (simp add: isoDate_def daysBefore_fixedOffset [OF assms])
qed

lemma chartInit_eq:
  "fixedOffset z \<Longrightarrow> i \<ge> -1 \<Longrightarrow> chartInit z now i labels data
     = (labels @ [isoDate now - i..isoDate now],
        foldl (\<lambda>d k. Map_set d k 0) data [isoDate now - i..isoDate now])"
proof (induction z now i labels data rule: chartInit.induct)
  case (1 z now i labels data)
  show ?case
  proof (cases "i \<ge> 0")
    case True
    have u: "[isoDate now - i..isoDate now] = (isoDate now - i) # [isoDate now - (i - 1)..isoDate now]"
      using True by (subst upto_rec1) (simp_all add: algebra_simps)
    show ?thesis
      using True "1.IH" "1.prems"(1)
      by (subst chartInit.simps) (simp add: isoDate_daysBefore u)
  next
    case False
    with "1.prems" have "i = -1" by simp
    then show ?thesis by (subst chartInit.simps) simp
  qed
qed

lemma Map_set_fresh: "k \<notin> fst ` set m \<Longrightarrow> Map_set m k v = m @ [(k, v)]"
  by (induction m) auto

lemma foldl_Map_set_fresh:
  "distinct ks \<Longrightarrow> set ks \<inter> fst ` set m = {} \<Longrightarrow>
     foldl (\<lambda>d k. Map_set d k v) m ks = m @ map (\<lambda>k. (k, v)) ks"
proof (induction ks arbitrary: m)
  case Nil
  show ?case by simp
next
  case (Cons k ks)
  have "Map_set m k v = m @ [(k, v)]" using Cons.prems by (intro Map_set_fresh) auto
  moreover have "foldl (\<lambda>d k. Map_set d k v) (m @ [(k, v)]) ks = (m @ [(k, v)]) @ map (\<lambda>k. (k, v)) ks"
    using Cons.prems by (intro Cons.IH) auto
  ultimately show ?case by simp
qed

lemma chartAdd_distinct:
  "distinct (map fst m) \<Longrightarrow>
     chartAdd m r = map (\<lambda>(k, v). (k, v + (if sh_date r = k then sh_totalRevenue r else 0))) m"
proof (induction m)
  case Nil
  show ?case by (simp add: chartAdd_def Map_get_def)
next
  case (Cons p m)
  obtain k v where p: "p = (k, v)" by (cases p)
  show ?case
  proof (cases "sh_date r = k")
    case True
    then have "sh_date r \<notin> fst ` set m" using Cons.prems p by auto
    then have "\<forall>p \<in> set m. fst p \<noteq> sh_date r"
      by (metis imageI)
    then have "map (\<lambda>(k, v). (k, v + (if sh_date r = k then sh_totalRevenue r else 0))) m = m"
      by (intro map_idI) (auto simp: case_prod_beta)
    then show ?thesis using True by (simp add: chartAdd_def Map_get_def p)
  next
    case False
    have ih: "chartAdd m r
        = map (\<lambda>(k, v). (k, v + (if sh_date r = k then sh_totalRevenue r else 0))) m"
      using Cons by simp
    have step: "chartAdd (p # m) r = p # chartAdd m r"
      using False by (simp add: chartAdd_def Map_get_def p split: option.splits)
    show ?thesis unfolding step ih using False by (simp add: p)
  qed
qed

lemma foldl_chartAdd:
  "distinct (map fst m) \<Longrightarrow>
     foldl chartAdd m rs = map (\<lambda>(k, v). (k, v + revenueOn rs k)) m"
proof (induction rs arbitrary: m)
  case Nil
  show ?case by (simp add: revenueOn_def)
next
  case (Cons r rs)
  let ?m' = "chartAdd m r"
  have m': "?m' = map (\<lambda>(k, v). (k, v + (if sh_date r = k then sh_totalRevenue r else 0))) m"
    using Cons.prems by (rule chartAdd_distinct)
  have "map fst ?m' = map fst m" unfolding m' by (induction m) auto
  then have "foldl chartAdd ?m' rs = map (\<lambda>(k, v). (k, v + revenueOn rs k)) ?m'"
    using Cons.prems by (intro Cons.IH) simp
  also have "\<dots> = map (\<lambda>(k, v). (k, v + revenueOn (r # rs) k)) m"
    unfolding m' by (auto simp: revenueOn_def)
  finally show ?case by simp
qed

lemma chartData_eq:
  assumes "fixedOffset z" and "0 \<le> W"
  shows "chartData z now W forRange
     = \<lparr>cd_labels = [isoDate now - (W - 1)..isoDate now],
        cd_data = map (revenueOn forRange) [isoDate now - (W - 1)..isoDate now]\<rparr>"
proof -
  let ?ks = "[isoDate now - (W - 1)..isoDate now]"
  have init: "chartInit z now (W - 1) [] [] = (?ks, map (\<lambda>k. (k, 0)) ?ks)"
    using assms by (simp add: chartInit_eq foldl_Map_set_fresh)
  have d: "distinct (map fst (map (\<lambda>k. (k, 0::real)) ?ks))"
    by (simp add: comp_def)
  show ?thesis
    by (simp add: chartData_def Let_def init foldl_chartAdd [OF d] comp_def)
qed

lemma kept_in_window:
  assumes z: "fixedOffset z" and "isoDate now - W < d"
  shows "Date_of d \<ge> daysBefore z now W"
proof -
  have "now < (isoDate now + 1) * msPerDay"
  proof -
    have "now mod msPerDay < msPerDay" by (simp add: msPerDay_def)
    moreover have "now = isoDate now * msPerDay + now mod msPerDay"
      by (simp add: isoDate_def)
    ultimately show ?thesis by (simp add: algebra_simps)
  qed
  moreover have "(isoDate now + 1 - W) * msPerDay \<le> d * msPerDay"
    using assms by (intro mult_right_mono) (simp_all add: msPerDay_def)
  ultimately show ?thesis
    by (simp add: Date_of_def daysBefore_fixedOffset [OF z] algebra_simps)
qed

lemma revenueOn_forRange:
  assumes "fixedOffset z" and "isoDate now - W < d"
  shows "revenueOn (salesHistoryForRange z now W salesHistory) d = revenueOn salesHistory d"
proof -
  have "filter (\<lambda>r. sh_date r = d) (salesHistoryForRange z now W salesHistory)
      = filter (\<lambda>r. sh_date r = d) salesHistory"
    using kept_in_window [OF assms]
    by (auto simp: salesHistoryForRange_def Let_def intro: filter_cong)
  then show ?thesis by (simp add: revenueOn_def)
qed

lemma sum_revenueOn:
  "distinct ks \<Longrightarrow>
     sum_list (map (revenueOn rs) ks)
       = sum_list (map sh_totalRevenue (filter (\<lambda>r. sh_date r \<in> set ks) rs))"
proof (induction rs)
  case Nil
  show ?case by (simp add: revenueOn_def)
next
  case (Cons r rs)
  have one: "sum_list (map (\<lambda>k. if sh_date r = k then sh_totalRevenue r else 0) ks)
      = (if sh_date r \<in> set ks then sh_totalRevenue r else 0)"
    using Cons.prems by (induction ks) auto
  have "revenueOn (r # rs) = (\<lambda>k. (if sh_date r = k then sh_totalRevenue r else 0) + revenueOn rs k)"
    by (auto simp: revenueOn_def fun_eq_iff)
  then have "sum_list (map (revenueOn (r # rs)) ks)
      = sum_list (map (\<lambda>k. if sh_date r = k then sh_totalRevenue r else 0) ks)
        + sum_list (map (revenueOn rs) ks)"
    by (simp add: sum_list_addf)
  then show ?case using Cons one by simp
qed


text \<open>
  In a zone whose offset never changes, and for a window of \<open>W \<ge> 0\<close> days, the series
  has exactly \<open>W\<close> entries, one per calendar day from \<open>today - (W - 1)\<close> up to today,
  oldest first; each entry is the revenue of the records of that day, and the entries add
  up to the revenue of the records dated within these \<open>W\<close> days.
\<close>

lemma chartData_fixedOffset:
  assumes z: "fixedOffset z" and W: "0 \<le> W"
  shows "(let cd = chartData z now W (salesHistoryForRange z now W salesHistory);
              today = isoDate now
          in int (length (cd_data cd)) = W
           \<and> length (cd_labels cd) = length (cd_data cd)
           \<and> cd_labels cd = [today - (W - 1)..today]
           \<and> (\<forall>j < length (cd_data cd).
                 cd_data cd ! j = revenueOn salesHistory (cd_labels cd ! j))
           \<and> (\<forall>d. (\<forall>r \<in> set salesHistory. sh_date r \<noteq> d) \<longrightarrow> revenueOn salesHistory d = 0)
           \<and> sum_list (cd_data cd)
               = sum_list (map sh_totalRevenue
                   (filter (\<lambda>r. today - W < sh_date r \<and> sh_date r \<le> today) salesHistory))
           \<and> ((\<forall>r \<in> set (salesHistoryForRange z now W salesHistory).
                   today - W < sh_date r \<and> sh_date r \<le> today)
                \<longrightarrow> sum_list (cd_data cd)
                      = sum_list (map sh_totalRevenue (salesHistoryForRange z now W salesHistory))))"
proof -
  let ?ks = "[isoDate now - (W - 1)..isoDate now]"
  let ?cd = "chartData z now W (salesHistoryForRange z now W salesHistory)"
  have "map (revenueOn (salesHistoryForRange z now W salesHistory)) ?ks
      = map (revenueOn salesHistory) ?ks"
    by (intro map_cong refl revenueOn_forRange [OF z]) simp
  then have cd: "?cd = \<lparr>cd_labels = ?ks, cd_data = map (revenueOn salesHistory) ?ks\<rparr>"
    using chartData_eq [OF z W] by simp
  have len: "int (length (cd_data ?cd)) = W"
    using W by (simp add: cd)
  have nth: "\<forall>j < length (cd_data ?cd). cd_data ?cd ! j = revenueOn salesHistory (cd_labels ?cd ! j)"
    by (simp add: cd)
  have none: "revenueOn salesHistory d = 0" if "\<forall>r \<in> set salesHistory. sh_date r \<noteq> d" for d
  proof -
    have "filter (\<lambda>r. sh_date r = d) salesHistory = []"
      using that by (simp add: filter_empty_conv)
    then show ?thesis by (simp add: revenueOn_def)
  qed
  have "sum_list (cd_data ?cd)
      = sum_list (map sh_totalRevenue (filter (\<lambda>r. sh_date r \<in> set ?ks) salesHistory))"
    by (simp add: cd sum_revenueOn)
  also have "(\<lambda>r. sh_date r \<in> set ?ks)
      = (\<lambda>r. isoDate now - W < sh_date r \<and> sh_date r \<le> isoDate now)"
    by (auto simp: fun_eq_iff)
  finally have total: "sum_list (cd_data ?cd)
      = sum_list (map sh_totalRevenue
          (filter (\<lambda>r. isoDate now - W < sh_date r \<and> sh_date r \<le> isoDate now) salesHistory))" .
  have kept: "sum_list (cd_data ?cd)
      = sum_list (map sh_totalRevenue (salesHistoryForRange z now W salesHistory))"
    if all: "\<forall>r \<in> set (salesHistoryForRange z now W salesHistory).
               isoDate now - W < sh_date r \<and> sh_date r \<le> isoDate now"
  proof -
    have "filter (\<lambda>r. isoDate now - W < sh_date r \<and> sh_date r \<le> isoDate now) salesHistory
        = filter (\<lambda>r. isoDate now - W < sh_date r \<and> sh_date r \<le> isoDate now)
            (salesHistoryForRange z now W salesHistory)"
      using kept_in_window [OF z, of now W]
      by (auto simp: salesHistoryForRange_def Let_def intro: filter_cong)
    also have "\<dots> = salesHistoryForRange z now W salesHistory"
      using all by (simp add: filter_id_conv)
    finally show ?thesis using total by simp
  qed
  from len nth none total kept show ?thesis
    unfolding Let_def by (simp add: cd)
qed

lemma ex_today: "isoDate ex_now = 1000"
  by (simp add: isoDate_def ex_now_def msPerDay_def)

text \<open>
  C4. The series is meant to have one entry for each of the \<open>W\<close> days ending today, and
  to add up to the revenue of that window. In a zone with daylight saving it does not:
  the labels are UTC days of instants found by local-calendar arithmetic. In New York at
  2021-11-08 00:30 UTC with \<open>W = 3\<close> the days are 11-05, 11-06 and 11-08, so the sale of
  11-07 is left out and the sum is 230 where the window holds 270; at 2021-03-14 23:30 UTC
  the day 03-14 is labelled twice and the series has two entries for three labels.
\<close>

theorem C4_daily_revenue_series_dst:
  "isoDate ex_autumn = 18939
   \<and> chartData ex_newYork ex_autumn 3
        (salesHistoryForRange ex_newYork ex_autumn 3
           [ex_sale 18939 ''m1'' 2 200, ex_sale 18938 ''m1'' 1 70, ex_sale 18936 ''m1'' 1 30])
      = \<lparr>cd_labels = [18936, 18937, 18939], cd_data = [30, 0, 200]\<rparr>
   \<and> sum_list (map sh_totalRevenue
        (filter (\<lambda>r. isoDate ex_autumn - 3 < sh_date r \<and> sh_date r \<le> isoDate ex_autumn)
           [ex_sale 18939 ''m1'' 2 200, ex_sale 18938 ''m1'' 1 70, ex_sale 18936 ''m1'' 1 30]))
      = 270
   \<and> isoDate ex_spring = 18700
   \<and> chartData ex_newYork ex_spring 3 (salesHistoryForRange ex_newYork ex_spring 3 [])
      = \<lparr>cd_labels = [18699, 18700, 18700], cd_data = [0, 0]\<rparr>"
proof -
  have today: "isoDate ex_autumn = 18939" "isoDate ex_spring = 18700"
    by (simp_all add: isoDate_def ex_autumn_def ex_spring_def msPerDay_def)
  have moved: "daysBefore ex_newYork ex_autumn 0 = 18939 * msPerDay + 1800000"
    "daysBefore ex_newYork ex_autumn 1 = 18937 * msPerDay + 84600000"
    "daysBefore ex_newYork ex_autumn 2 = 18936 * msPerDay + 84600000"
    "daysBefore ex_newYork ex_autumn 3 = 18935 * msPerDay + 84600000"
    "daysBefore ex_newYork ex_spring 0 = 18700 * msPerDay + 84600000"
    "daysBefore ex_newYork ex_spring 1 = 18700 * msPerDay + 1800000"
    "daysBefore ex_newYork ex_spring 2 = 18699 * msPerDay + 1800000"
    by (simp_all add: daysBefore_def Let_def ex_newYork_def ex_autumn_def ex_spring_def
          msPerDay_def)
  have kept: "salesHistoryForRange ex_newYork ex_autumn 3
        [ex_sale 18939 ''m1'' 2 200, ex_sale 18938 ''m1'' 1 70, ex_sale 18936 ''m1'' 1 30]
      = [ex_sale 18939 ''m1'' 2 200, ex_sale 18938 ''m1'' 1 70, ex_sale 18936 ''m1'' 1 30]"
    "salesHistoryForRange ex_newYork ex_spring 3 [] = []"
    by (simp_all add: salesHistoryForRange_def Let_def moved ex_sale_def Date_of_def msPerDay_def)
  have autumn: "chartData ex_newYork ex_autumn 3
        [ex_sale 18939 ''m1'' 2 200, ex_sale 18938 ''m1'' 1 70, ex_sale 18936 ''m1'' 1 30]
      = \<lparr>cd_labels = [18936, 18937, 18939], cd_data = [30, 0, 200]\<rparr>"
    by (simp add: chartData_def Let_def chartInit.simps moved isoDate_def msPerDay_def
          chartAdd_def Map_get_def ex_sale_def)
  have spring: "chartData ex_newYork ex_spring 3 []
      = \<lparr>cd_labels = [18699, 18700, 18700], cd_data = [0, 0]\<rparr>"
    by (simp add: chartData_def Let_def chartInit.simps moved isoDate_def msPerDay_def)
  have window: "sum_list (map sh_totalRevenue
        (filter (\<lambda>r. isoDate ex_autumn - 3 < sh_date r \<and> sh_date r \<le> isoDate ex_autumn)
           [ex_sale 18939 ''m1'' 2 200, ex_sale 18938 ''m1'' 1 70, ex_sale 18936 ''m1'' 1 30]))
      = 270"
    by (simp add: today ex_sale_def)
  from today kept autumn spring window show ?thesis by simp
qed

section \<open>Deleting an ingredient\<close>

text \<open>
  C8. Deleting an ingredient that some recipe row references returns the structured
  result \<open>{success: false, message}\<close>, whatever the store would answer (no store call is
  made), and leaves the state, so the ingredient and every recipe, unchanged. Deleting an
  ingredient that no recipe row references performs the delete and returns
  \<open>{success: true}\<close>.
\<close>

theorem C8_delete_ingredient:
  "((\<exists>r \<in> set (st_recipes s). rr_ingredientId r = ingredientId) \<longrightarrow>
      (\<exists>msg. deleteIngredient storeError ingredientId s
                = Inr (\<lparr>res_success = False, res_message = Some msg\<rparr>, s)))
   \<and> (\<not> (\<exists>r \<in> set (st_recipes s). rr_ingredientId r = ingredientId) \<longrightarrow>
      (\<exists>s'. deleteIngredient None ingredientId s
               = Inr (\<lparr>res_success = True, res_message = None\<rparr>, s')
           \<and> st_allIngredients s' = filter (\<lambda>i. ing_id i \<noteq> ingredientId) (st_allIngredients s)
           \<and> ingredientId \<notin> ing_id ` set (st_allIngredients s')
           \<and> st_recipes s' = st_recipes s))"
proof -
  have keep: "filter (\<lambda>r. rr_ingredientId r \<noteq> ingredientId) (st_recipes s) = st_recipes s"
    if "\<not> (\<exists>r \<in> set (st_recipes s). rr_ingredientId r = ingredientId)"
    using that by (simp add: filter_id_conv)
  show ?thesis
    using keep
    by (auto simp: deleteIngredient_def Let_def list_ex_iff DatabaseService_deleteIngredient_def)
qed

theorem C8_delete_ingredient_witness:
  "(\<exists>r \<in> set (st_recipes ex_store). rr_ingredientId r = ''i1'')
   \<and> (\<exists>msg. deleteIngredient None ''i1'' ex_store
               = Inr (\<lparr>res_success = False, res_message = Some msg\<rparr>, ex_store))
   \<and> \<not> (\<exists>r \<in> set (st_recipes ex_store). rr_ingredientId r = ''i2'')
   \<and> (\<exists>s'. deleteIngredient None ''i2'' ex_store
               = Inr (\<lparr>res_success = True, res_message = None\<rparr>, s')
           \<and> st_allIngredients s' = [ex_flour] \<and> st_recipes s' = st_recipes ex_store)"
proof -
  have r: "st_recipes ex_store = ex_recipes" "st_allIngredients ex_store = [ex_flour, ex_salt]"
    by (simp_all add: ex_store_def ex_state_def)
  have a: "\<exists>r \<in> set (st_recipes ex_store). rr_ingredientId r = ''i1''"
    by (simp add: r ex_recipes_def)
  have b: "\<not> (\<exists>r \<in> set (st_recipes ex_store). rr_ingredientId r = ''i2'')"
    by (simp add: r ex_recipes_def)
  show ?thesis
    using C8_delete_ingredient [of ex_store "''i1''" None]
          C8_delete_ingredient [of ex_store "''i2''" None] a b
    by (auto simp: r ex_flour_def ex_salt_def)
qed

section \<open>Stock mutations\<close>

lemma fst_in_keys: "(k, v) \<in> set m \<Longrightarrow> k \<in> fst ` set m"
  by force

lemma keys_Map_set:
  "map fst (Map_set m k v) = (if k \<in> fst ` set m then map fst m else map fst m @ [k])"
  by (induction m) (auto dest: fst_in_keys)

lemma distinct_Map_set: "distinct (map fst m) \<Longrightarrow> distinct (map fst (Map_set m k v))"
  by (simp add: keys_Map_set)

lemma distinct_Map_add: "distinct (map fst m) \<Longrightarrow> distinct (map fst (Map_add m k x))"
  by (simp add: Map_add_def distinct_Map_set)

lemma map_of_Map_add:
  "map_of (Map_add m k x) = (map_of m)(k \<mapsto> (case map_of m k of Some v \<Rightarrow> v | None \<Rightarrow> 0) + x)"
  by (simp add: Map_add_def map_of_Map_set Map_get_def)

lemma distinct_accumulate:
  "distinct (map fst m) \<Longrightarrow> distinct (map fst (foldl (\<lambda>m (k, x). Map_add m k x) m kxs))"
  by (induction kxs arbitrary: m) (auto simp: distinct_Map_add)

lemma filter_key_absent: "k \<notin> fst ` set kxs \<Longrightarrow> filter (\<lambda>p. fst p = k) kxs = []"
  by (auto simp: filter_empty_conv)

lemma map_of_accumulate:
  "map_of (foldl (\<lambda>m (k, x). Map_add m k x) m kxs) k
     = (if k \<in> fst ` set kxs
        then Some ((case map_of m k of Some v \<Rightarrow> v | None \<Rightarrow> 0)
                   + sum_list (map snd (filter (\<lambda>p. fst p = k) kxs)))
        else map_of m k)"
proof (induction kxs arbitrary: m)
  case Nil
  show ?case by simp
next
  case (Cons p kxs)
  obtain k' x where p: "p = (k', x)" by (cases p)
  show ?case
    by (simp add: p Cons.IH map_of_Map_add filter_key_absent split: option.splits)
qed

lemma find_key_distinct:
  "distinct (map f xs) \<Longrightarrow> x \<in> set xs \<Longrightarrow> find (\<lambda>y. f y = f x) xs = Some x"
  by (induction xs) (auto simp: image_iff)

lemma stock_updates:
  assumes "distinct (map fst entries)"
  shows "foldl (\<lambda>rows (k, x).
            (case look k of
               Some ing \<Rightarrow> updateIngredient_stockLevel k (g ing x) rows
             | None \<Rightarrow> rows)) rows entries
       = map (\<lambda>i. case map_of entries (ing_id i) of
                     Some x \<Rightarrow> (case look (ing_id i) of
                                  Some ing \<Rightarrow> i\<lparr>ing_stockLevel := g ing x\<rparr>
                                | None \<Rightarrow> i)
                   | None \<Rightarrow> i) rows"
  using assms
proof (induction entries arbitrary: rows)
  case Nil
  show ?case by simp
next
  case (Cons e entries)
  let ?step = "\<lambda>rows (k, x).
            (case look k of
               Some ing \<Rightarrow> updateIngredient_stockLevel k (g ing x) rows
             | None \<Rightarrow> rows)"
  let ?U = "\<lambda>es i. case map_of es (ing_id i) of
                     Some x \<Rightarrow> (case look (ing_id i) of
                                  Some ing \<Rightarrow> i\<lparr>ing_stockLevel := g ing x\<rparr>
                                | None \<Rightarrow> i)
                   | None \<Rightarrow> i"
  obtain k x where e: "e = (k, x)" by (cases e)
  from Cons.prems have fresh: "map_of entries k = None" and d: "distinct (map fst entries)"
    by (auto simp: e map_of_eq_None_iff)
  show ?case
  proof (cases "look k")
    case None
    have "foldl ?step rows (e # entries) = foldl ?step rows entries"
      using None by (simp add: e)
    also have "\<dots> = map (?U entries) rows"
      by (rule Cons.IH [OF d])
    also have "\<dots> = map (?U (e # entries)) rows"
      using None fresh by (intro map_cong refl) (simp add: e)
    finally show ?thesis .
  next
    case (Some ing)
    have "foldl ?step rows (e # entries)
        = foldl ?step (updateIngredient_stockLevel k (g ing x) rows) entries"
      using Some by (simp add: e)
    also have "\<dots> = map (?U entries) (updateIngredient_stockLevel k (g ing x) rows)"
      by (rule Cons.IH [OF d])
    also have "\<dots> = map (?U (e # entries)) rows"
      unfolding updateIngredient_stockLevel_def map_map
      using Some fresh by (intro map_cong refl) (simp add: e)
    finally show ?thesis .
  qed
qed


lemma key_in_filter:
  assumes "distinct (map f xs)" and "x \<in> set xs"
  shows "f x \<in> f ` set (filter P xs) \<longleftrightarrow> P x"
proof
  assume "f x \<in> f ` set (filter P xs)"
  then obtain y where y: "y \<in> set xs" "P y" "f y = f x" by auto
  from assms(1) have "inj_on f (set xs)" by (simp add: distinct_map)
  with y assms(2) have "y = x" by (auto dest: inj_onD)
  with y show "P x" by simp
next
  assume "P x"
  with assms(2) show "f x \<in> f ` set (filter P xs)" by auto
qed

lemma find_in_filter:
  assumes "distinct (map f xs)" and "x \<in> set xs" and "P x"
  shows "find (\<lambda>y. f y = f x) (filter P xs) = Some x"
proof -
  have "distinct (map f (filter P xs))" using assms(1) by (rule distinct_map_filter)
  moreover have "x \<in> set (filter P xs)" using assms by simp
  ultimately show ?thesis by (rule find_key_distinct)
qed

lemma receiveStock_rows:
  assumes ids: "distinct (map ing_id (st_allIngredients s))"
    and found: "find (\<lambda>po. po_id po = orderId) (hook_pendingOrders s) = Some order"
  shows "st_allIngredients (receiveStock orderId s)
     = map (\<lambda>i. if ing_id i \<in> oi_ingredientId ` set (po_items order)
                 then i\<lparr>ing_stockLevel := ing_stockLevel i + orderedQuantity order (ing_id i)\<rparr>
                 else i) (st_allIngredients s)"
proof -
  let ?kxs = "map (\<lambda>item. (oi_ingredientId item, oi_quantityToOrder item)) (po_items order)"
  let ?m = "foldl (\<lambda>m (k, x). Map_add m k x) [] ?kxs"
  have m: "foldl (\<lambda>m item. Map_add m (oi_ingredientId item) (oi_quantityToOrder item))
             [] (po_items order) = ?m"
    by (simp add: foldl_map)
  have d: "distinct (map fst ?m)"
    by (rule distinct_accumulate) simp
  have look: "map_of ?m k
      = (if k \<in> oi_ingredientId ` set (po_items order)
         then Some (orderedQuantity order k) else None)" for k
  proof -
    have "filter (\<lambda>p. fst p = k) ?kxs
        = map (\<lambda>item. (oi_ingredientId item, oi_quantityToOrder item))
            (filter (\<lambda>item. oi_ingredientId item = k) (po_items order))"
      by (simp add: filter_map comp_def)
    then have "sum_list (map snd (filter (\<lambda>p. fst p = k) ?kxs)) = orderedQuantity order k"
      by (simp add: orderedQuantity_def comp_def)
    moreover have "fst ` set ?kxs = oi_ingredientId ` set (po_items order)"
      by (simp add: image_image)
    ultimately show ?thesis by (simp add: map_of_accumulate)
  qed
  have "st_allIngredients (receiveStock orderId s)
      = map (\<lambda>i. case map_of ?m (ing_id i) of
                    Some x \<Rightarrow> (case find (\<lambda>j. ing_id j = ing_id i) (st_allIngredients s) of
                                 Some ing \<Rightarrow> i\<lparr>ing_stockLevel := ing_stockLevel ing + x\<rparr>
                               | None \<Rightarrow> i)
                  | None \<Rightarrow> i) (st_allIngredients s)"
    unfolding receiveStock_def found option.case Let_def m
    using stock_updates [OF d, where look = "\<lambda>k. find (\<lambda>i. ing_id i = k) (st_allIngredients s)"
            and g = "\<lambda>ing x. ing_stockLevel ing + x" and rows = "st_allIngredients s"]
    by simp
  also have "\<dots> = map (\<lambda>i. if ing_id i \<in> oi_ingredientId ` set (po_items order)
                 then i\<lparr>ing_stockLevel := ing_stockLevel i + orderedQuantity order (ing_id i)\<rparr>
                 else i) (st_allIngredients s)"
    by (intro map_cong refl) (simp add: look find_key_distinct [OF ids])
  finally show ?thesis .
qed

lemma receiveStock_orders:
  assumes "find (\<lambda>po. po_id po = orderId) (hook_pendingOrders s) = Some order"
  shows "st_allPendingOrders (receiveStock orderId s)
     = filter (\<lambda>po. po_id po \<noteq> orderId) (st_allPendingOrders s)"
  by (simp add: receiveStock_def assms Let_def)

lemma addWasteRecord_rows:
  assumes ids: "distinct (map ing_id (st_allIngredients s))"
  shows "st_allIngredients (addWasteRecord newId record s)
     = map (\<lambda>i. if ing_outletId i = st_currentOutletId s \<and> ing_id i = wi_ingredientId record
                 then i\<lparr>ing_stockLevel := max 0 (ing_stockLevel i - wi_quantity record)\<rparr>
                 else i) (st_allIngredients s)"
proof (cases "find (\<lambda>i. ing_id i = wi_ingredientId record) (hook_ingredients s)")
  case None
  then have "\<forall>i \<in> set (st_allIngredients s).
      \<not> (ing_outletId i = st_currentOutletId s \<and> ing_id i = wi_ingredientId record)"
    by (auto simp: find_None_iff hook_ingredients_def)
  then have "map (\<lambda>i. if ing_outletId i = st_currentOutletId s \<and> ing_id i = wi_ingredientId record
                 then i\<lparr>ing_stockLevel := max 0 (ing_stockLevel i - wi_quantity record)\<rparr>
                 else i) (st_allIngredients s) = st_allIngredients s"
    by (intro map_idI) auto
  then show ?thesis using None by (simp add: addWasteRecord_def)
next
  case (Some ing)
  then have ing: "ing \<in> set (st_allIngredients s)" "ing_outletId ing = st_currentOutletId s"
      "ing_id ing = wi_ingredientId record"
    by (auto simp: find_Some_iff hook_ingredients_def dest: nth_mem)
  from ids have inj: "inj_on ing_id (set (st_allIngredients s))"
    by (simp add: distinct_map)
  have same: "i = ing" if "i \<in> set (st_allIngredients s)" "ing_id i = wi_ingredientId record" for i
    using inj_onD [OF inj, of i ing] that ing by simp
  have "st_allIngredients (addWasteRecord newId record s)
      = map (\<lambda>i. if ing_id i = wi_ingredientId record
                  then i\<lparr>ing_stockLevel := max 0 (ing_stockLevel ing - wi_quantity record)\<rparr>
                  else i) (st_allIngredients s)"
    using Some by (simp add: addWasteRecord_def Let_def updateIngredient_stockLevel_def)
  also have "\<dots> = map (\<lambda>i. if ing_outletId i = st_currentOutletId s \<and> ing_id i = wi_ingredientId record
                 then i\<lparr>ing_stockLevel := max 0 (ing_stockLevel i - wi_quantity record)\<rparr>
                 else i) (st_allIngredients s)"
  proof (rule map_cong [OF refl])
    fix i
    assume i: "i \<in> set (st_allIngredients s)"
    show "(if ing_id i = wi_ingredientId record
           then i\<lparr>ing_stockLevel := max 0 (ing_stockLevel ing - wi_quantity record)\<rparr> else i)
        = (if ing_outletId i = st_currentOutletId s \<and> ing_id i = wi_ingredientId record
           then i\<lparr>ing_stockLevel := max 0 (ing_stockLevel i - wi_quantity record)\<rparr> else i)"
    proof (cases "ing_id i = wi_ingredientId record")
      case True
      then have "i = ing" using same i by blast
      then show ?thesis using ing by simp
    next
      case False
      then show ?thesis by simp
    qed
  qed
  finally show ?thesis .
qed


lemma consumeRecipe_acc:
  "consumeRecipe ings sold m recipe
     = foldl (\<lambda>m (k, x). Map_add m k x) m
         (map (\<lambda>c. (rc_ingredientId c, rc_quantity c * sold))
            (filter (\<lambda>c. rc_ingredientId c \<in> ing_id ` set ings) recipe))"
proof (induction recipe arbitrary: m)
  case Nil
  show ?case by (simp add: consumeRecipe_def)
next
  case (Cons c recipe)
  show ?case
  proof (cases "find (\<lambda>i. ing_id i = rc_ingredientId c) ings")
    case None
    then have out: "rc_ingredientId c \<notin> ing_id ` set ings"
      by (auto simp: find_None_iff)
    have "consumeRecipe ings sold m (c # recipe) = consumeRecipe ings sold m recipe"
      using None by (simp add: consumeRecipe_def)
    then show ?thesis using out Cons.IH [of m] by simp
  next
    case (Some oi)
    then have oi: "ing_id oi = rc_ingredientId c" "oi \<in> set ings"
      by (auto simp: find_Some_iff dest: nth_mem)
    then have inn: "rc_ingredientId c \<in> ing_id ` set ings"
      by (metis imageI)
    have "consumeRecipe ings sold m (c # recipe)
        = consumeRecipe ings sold (Map_add m (rc_ingredientId c) (rc_quantity c * sold)) recipe"
      using Some oi by (simp add: consumeRecipe_def)
    then show ?thesis
      using inn Cons.IH [of "Map_add m (rc_ingredientId c) (rc_quantity c * sold)"] by simp
  qed
qed

lemma salesContributions_Cons:
  "salesContributions sales ings (m # items)
     = (if soldCountOf sales m > 0
        then map (\<lambda>c. (rc_ingredientId c, rc_quantity c * soldCountOf sales m))
               (filter (\<lambda>c. rc_ingredientId c \<in> ing_id ` set ings) (mi_recipe m))
        else []) @ salesContributions sales ings items"
  by (simp add: salesContributions_def)

lemma recordSale_loop_snd:
  "snd (foldl (recordSale today outletId sales ings) st items)
     = foldl (\<lambda>m (k, x). Map_add m k x) (snd st) (salesContributions sales ings items)"
proof (induction items arbitrary: st)
  case Nil
  show ?case by (simp add: salesContributions_def)
next
  case (Cons m items)
  have "snd (recordSale today outletId sales ings st m)
      = foldl (\<lambda>m (k, x). Map_add m k x) (snd st)
          (if soldCountOf sales m > 0
           then map (\<lambda>c. (rc_ingredientId c, rc_quantity c * soldCountOf sales m))
                  (filter (\<lambda>c. rc_ingredientId c \<in> ing_id ` set ings) (mi_recipe m))
           else [])"
    by (simp add: recordSale_def Let_def consumeRecipe_acc)
  then show ?case
    using Cons.IH [of "recordSale today outletId sales ings st m"]
    by (simp only: foldl_Cons salesContributions_Cons foldl_append)
qed

lemma recordSale_loop_fst:
  "fst (foldl (recordSale today outletId sales ings) st items)
     = fst st @ map (\<lambda>m. \<lparr>sh_date = today, sh_menuItemId = mi_id m,
                           sh_quantitySold = soldCountOf sales m,
                           sh_totalRevenue = soldCountOf sales m * mi_sellingPrice m,
                           sh_outletId = outletId\<rparr>)
                  (filter (\<lambda>m. soldCountOf sales m > 0) items)"
  by (induction items arbitrary: st) (simp_all add: recordSale_def Let_def)

lemma salesContributions_keys:
  "k \<in> fst ` set (salesContributions sales ings items)
     \<longleftrightarrow> k \<in> ing_id ` set ings \<and> consumedBySales sales items k"
proof (induction items)
  case Nil
  show ?case by (simp add: salesContributions_def consumedBySales_def)
next
  case (Cons m items)
  have one: "k \<in> fst ` set (map (\<lambda>c. (rc_ingredientId c, rc_quantity c * x))
                 (filter (\<lambda>c. rc_ingredientId c \<in> ing_id ` set ings) (mi_recipe m)))
      \<longleftrightarrow> k \<in> ing_id ` set ings \<and> list_ex (\<lambda>c. rc_ingredientId c = k) (mi_recipe m)" for x
    by (auto simp: list_ex_iff image_iff)
  have c: "consumedBySales sales (m # items) k
      \<longleftrightarrow> (soldCountOf sales m > 0 \<and> list_ex (\<lambda>c. rc_ingredientId c = k) (mi_recipe m))
          \<or> consumedBySales sales items k"
    by (simp add: consumedBySales_def)
  have split: "k \<in> fst ` set (xs @ ys) \<longleftrightarrow> k \<in> fst ` set xs \<or> k \<in> fst ` set ys"
    for xs ys :: "(string \<times> real) list"
    by auto
  show ?case
  proof (cases "soldCountOf sales m > 0")
    case True
    have "k \<in> fst ` set (salesContributions sales ings (m # items))
        \<longleftrightarrow> k \<in> fst ` set (map (\<lambda>c. (rc_ingredientId c, rc_quantity c * soldCountOf sales m))
                 (filter (\<lambda>c. rc_ingredientId c \<in> ing_id ` set ings) (mi_recipe m)))
            \<or> k \<in> fst ` set (salesContributions sales ings items)"
      unfolding salesContributions_Cons split using True by (simp only: if_True)
    also have "\<dots> \<longleftrightarrow> (k \<in> ing_id ` set ings \<and> list_ex (\<lambda>c. rc_ingredientId c = k) (mi_recipe m))
            \<or> (k \<in> ing_id ` set ings \<and> consumedBySales sales items k)"
      unfolding one Cons.IH ..
    also have "\<dots> \<longleftrightarrow> k \<in> ing_id ` set ings \<and> consumedBySales sales (m # items) k"
      unfolding c using True by blast
    finally show ?thesis .
  next
    case False
    have "k \<in> fst ` set (salesContributions sales ings (m # items))
        \<longleftrightarrow> k \<in> fst ` set (salesContributions sales ings items)"
      unfolding salesContributions_Cons using False by simp
    also have "\<dots> \<longleftrightarrow> k \<in> ing_id ` set ings \<and> consumedBySales sales (m # items) k"
      unfolding c Cons.IH using False by blast
    finally show ?thesis .
  qed
qed

lemma salesContributions_sum:
  assumes "k \<in> ing_id ` set ings"
  shows "sum_list (map snd (filter (\<lambda>p. fst p = k) (salesContributions sales ings items)))
     = salesConsumption sales items k"
proof (induction items)
  case Nil
  show ?case by (simp add: salesContributions_def salesConsumption_def)
next
  case (Cons m items)
  have one: "sum_list (map snd (filter (\<lambda>p. fst p = k)
                 (map (\<lambda>c. (rc_ingredientId c, rc_quantity c * x))
                    (filter (\<lambda>c. rc_ingredientId c \<in> ing_id ` set ings) recipe))))
      = sum_list (map (\<lambda>c. rc_quantity c * x) (filter (\<lambda>c. rc_ingredientId c = k) recipe))"
    for x and recipe :: "RecipeComponent list"
    using assms by (induction recipe) auto
  have c: "salesConsumption sales (m # items) k
      = (if soldCountOf sales m > 0
         then sum_list (map (\<lambda>c. rc_quantity c * soldCountOf sales m)
                (filter (\<lambda>c. rc_ingredientId c = k) (mi_recipe m)))
         else 0) + salesConsumption sales items k"
    by (simp add: salesConsumption_def)
  show ?case
    unfolding salesContributions_Cons c using Cons.IH one by simp
qed


lemma processDailySales_rows:
  assumes ids: "distinct (map ing_id (st_allIngredients s))"
  shows "st_allIngredients (processDailySales now sales s)
     = map (\<lambda>i. if ing_outletId i = st_currentOutletId s
                    \<and> consumedBySales sales (hook_menuItems s) (ing_id i)
                 then i\<lparr>ing_stockLevel :=
                        max 0 (ing_stockLevel i
                               - salesConsumption sales (hook_menuItems s) (ing_id i))\<rparr>
                 else i) (st_allIngredients s)"
proof -
  let ?kxs = "salesContributions sales (hook_ingredients s) (hook_menuItems s)"
  let ?m = "foldl (\<lambda>m (k, x). Map_add m k x) [] ?kxs"
  have m: "snd (foldl (recordSale (isoDate now) (st_currentOutletId s) sales (hook_ingredients s))
                  (st_allSalesHistory s, []) (hook_menuItems s)) = ?m"
    by (simp add: recordSale_loop_snd)
  have d: "distinct (map fst ?m)"
    by (rule distinct_accumulate) simp
  have look: "map_of ?m k
      = (if k \<in> ing_id ` set (hook_ingredients s) \<and> consumedBySales sales (hook_menuItems s) k
         then Some (salesConsumption sales (hook_menuItems s) k) else None)" for k
    using salesContributions_sum [of k "hook_ingredients s" sales "hook_menuItems s"]
    by (simp add: map_of_accumulate salesContributions_keys)
  have "st_allIngredients (processDailySales now sales s)
      = map (\<lambda>i. case map_of ?m (ing_id i) of
                    Some x \<Rightarrow> (case find (\<lambda>j. ing_id j = ing_id i) (hook_ingredients s) of
                                 Some ing \<Rightarrow> i\<lparr>ing_stockLevel := max 0 (ing_stockLevel ing - x)\<rparr>
                               | None \<Rightarrow> i)
                  | None \<Rightarrow> i) (st_allIngredients s)"
    unfolding processDailySales_def Let_def m
    using stock_updates [OF d, where look = "\<lambda>k. find (\<lambda>i. ing_id i = k) (hook_ingredients s)"
            and g = "\<lambda>ing x. max 0 (ing_stockLevel ing - x)" and rows = "st_allIngredients s"]
    by simp
  also have "\<dots> = map (\<lambda>i. if ing_outletId i = st_currentOutletId s
                    \<and> consumedBySales sales (hook_menuItems s) (ing_id i)
                 then i\<lparr>ing_stockLevel :=
                        max 0 (ing_stockLevel i
                               - salesConsumption sales (hook_menuItems s) (ing_id i))\<rparr>
                 else i) (st_allIngredients s)"
  proof (rule map_cong [OF refl])
    fix i
    assume i: "i \<in> set (st_allIngredients s)"
    have key: "ing_id i \<in> ing_id ` set (hook_ingredients s)
        \<longleftrightarrow> ing_outletId i = st_currentOutletId s"
      unfolding hook_ingredients_def by (rule key_in_filter [OF ids i])
    show "(case map_of ?m (ing_id i) of
             Some x \<Rightarrow> (case find (\<lambda>j. ing_id j = ing_id i) (hook_ingredients s) of
                          Some ing \<Rightarrow> i\<lparr>ing_stockLevel := max 0 (ing_stockLevel ing - x)\<rparr>
                        | None \<Rightarrow> i)
           | None \<Rightarrow> i)
        = (if ing_outletId i = st_currentOutletId s
              \<and> consumedBySales sales (hook_menuItems s) (ing_id i)
           then i\<lparr>ing_stockLevel :=
                  max 0 (ing_stockLevel i - salesConsumption sales (hook_menuItems s) (ing_id i))\<rparr>
           else i)"
    proof (cases "ing_outletId i = st_currentOutletId s
                  \<and> consumedBySales sales (hook_menuItems s) (ing_id i)")
      case True
      then have "find (\<lambda>j. ing_id j = ing_id i) (hook_ingredients s) = Some i"
        unfolding hook_ingredients_def using find_in_filter [OF ids i] by simp
      then show ?thesis using True key by (simp add: look)
    next
      case False
      then show ?thesis using key by (auto simp: look)
    qed
  qed
  finally show ?thesis .
qed

lemma orderedQuantity_nonneg:
  "\<forall>item \<in> set (po_items order). 0 \<le> oi_quantityToOrder item \<Longrightarrow> 0 \<le> orderedQuantity order k"
  by (auto simp: orderedQuantity_def intro!: sum_list_nonneg)

text \<open>
  C9 (as amended). Let the ingredient ids be distinct (the table's primary key) and every
  stock level be non-negative. Recording the sales of a day sets the stock of each
  ingredient of the current outlet that a sold menu item's recipe uses to its stock minus
  the sum of \<open>component.quantity * soldCount\<close>, clamped at 0, and leaves every other
  ingredient, those of other outlets included, as it was; recording waste of quantity \<open>q\<close>
  sets the stock of the outlet's ingredient to its stock minus \<open>q\<close>, clamped at 0; receiving
  a pending order adds to each ingredient on the order exactly its ordered quantity and
  removes the order; \<open>updateIngredientStock\<close> writes the given value as it is. Every stock
  level is still non-negative after recording sales and after recording waste, after
  receiving an order whose quantities are all non-negative, and after
  \<open>updateIngredientStock\<close> with a non-negative value.
\<close>

theorem C9_stock_mutations:
  assumes ids: "distinct (map ing_id (st_allIngredients s))"
    and nonneg: "\<forall>i \<in> set (st_allIngredients s). 0 \<le> ing_stockLevel i"
  shows "st_allIngredients (processDailySales now sales s)
           = map (\<lambda>i. if ing_outletId i = st_currentOutletId s
                          \<and> consumedBySales sales (hook_menuItems s) (ing_id i)
                       then i\<lparr>ing_stockLevel :=
                              max 0 (ing_stockLevel i
                                     - salesConsumption sales (hook_menuItems s) (ing_id i))\<rparr>
                       else i) (st_allIngredients s)
       \<and> st_allIngredients (addWasteRecord newId w s)
           = map (\<lambda>i. if ing_outletId i = st_currentOutletId s
                          \<and> ing_id i = wi_ingredientId w
                       then i\<lparr>ing_stockLevel := max 0 (ing_stockLevel i - wi_quantity w)\<rparr>
                       else i) (st_allIngredients s)
       \<and> (\<forall>order. find (\<lambda>po. po_id po = orderId) (hook_pendingOrders s) = Some order \<longrightarrow>
             st_allIngredients (receiveStock orderId s)
               = map (\<lambda>i. if ing_id i \<in> oi_ingredientId ` set (po_items order)
                           then i\<lparr>ing_stockLevel :=
                                  ing_stockLevel i + orderedQuantity order (ing_id i)\<rparr>
                           else i) (st_allIngredients s)
             \<and> st_allPendingOrders (receiveStock orderId s)
               = filter (\<lambda>po. po_id po \<noteq> orderId) (st_allPendingOrders s)
             \<and> orderId \<notin> po_id ` set (st_allPendingOrders (receiveStock orderId s)))
       \<and> updateIngredientStock None k v s
           = Inr (s\<lparr>st_allIngredients :=
                     map (\<lambda>i. if ing_id i = k then i\<lparr>ing_stockLevel := v\<rparr> else i)
                       (st_allIngredients s)\<rparr>)
       \<and> (\<forall>i \<in> set (st_allIngredients (processDailySales now sales s)). 0 \<le> ing_stockLevel i)
       \<and> (\<forall>i \<in> set (st_allIngredients (addWasteRecord newId w s)). 0 \<le> ing_stockLevel i)
       \<and> ((\<forall>order. find (\<lambda>po. po_id po = orderId) (hook_pendingOrders s) = Some order \<longrightarrow>
               (\<forall>item \<in> set (po_items order). 0 \<le> oi_quantityToOrder item))
            \<longrightarrow> (\<forall>i \<in> set (st_allIngredients (receiveStock orderId s)). 0 \<le> ing_stockLevel i))
       \<and> (0 \<le> v \<longrightarrow>
            (\<forall>t. updateIngredientStock None k v s = Inr t \<longrightarrow>
                 (\<forall>i \<in> set (st_allIngredients t). 0 \<le> ing_stockLevel i)))"
proof -
  note sales = processDailySales_rows [OF ids, of now sales]
  note waste = addWasteRecord_rows [OF ids, of newId w]
  have recv: "st_allIngredients (receiveStock orderId s)
               = map (\<lambda>i. if ing_id i \<in> oi_ingredientId ` set (po_items order)
                           then i\<lparr>ing_stockLevel :=
                                  ing_stockLevel i + orderedQuantity order (ing_id i)\<rparr>
                           else i) (st_allIngredients s)
             \<and> st_allPendingOrders (receiveStock orderId s)
               = filter (\<lambda>po. po_id po \<noteq> orderId) (st_allPendingOrders s)
             \<and> orderId \<notin> po_id ` set (st_allPendingOrders (receiveStock orderId s))"
    if "find (\<lambda>po. po_id po = orderId) (hook_pendingOrders s) = Some order" for order
    using receiveStock_rows [OF ids that] receiveStock_orders [OF that] by auto
  have upd: "updateIngredientStock None k v s
           = Inr (s\<lparr>st_allIngredients :=
                     map (\<lambda>i. if ing_id i = k then i\<lparr>ing_stockLevel := v\<rparr> else i)
                       (st_allIngredients s)\<rparr>)"
    by (simp add: updateIngredientStock_def updateIngredient_stockLevel_def)
  have inv_sales: "\<forall>i \<in> set (st_allIngredients (processDailySales now sales s)). 0 \<le> ing_stockLevel i"
    unfolding sales using nonneg by auto
  have inv_waste: "\<forall>i \<in> set (st_allIngredients (addWasteRecord newId w s)). 0 \<le> ing_stockLevel i"
    unfolding waste using nonneg by auto
  have inv_recv: "\<forall>i \<in> set (st_allIngredients (receiveStock orderId s)). 0 \<le> ing_stockLevel i"
    if qty: "\<forall>order. find (\<lambda>po. po_id po = orderId) (hook_pendingOrders s) = Some order \<longrightarrow>
               (\<forall>item \<in> set (po_items order). 0 \<le> oi_quantityToOrder item)"
  proof (cases "find (\<lambda>po. po_id po = orderId) (hook_pendingOrders s)")
    case None
    then show ?thesis using nonneg by (simp add: receiveStock_def)
  next
    case (Some order)
    with qty have "\<forall>item \<in> set (po_items order). 0 \<le> oi_quantityToOrder item"
      by blast
    then have "0 \<le> orderedQuantity order k" for k
      by (rule orderedQuantity_nonneg)
    then show ?thesis
      unfolding receiveStock_rows [OF ids Some] using nonneg by (auto intro: add_nonneg_nonneg)
  qed
  have inv_upd: "\<forall>i \<in> set (st_allIngredients t). 0 \<le> ing_stockLevel i"
    if "0 \<le> v" and "updateIngredientStock None k v s = Inr t" for t
    using that nonneg unfolding upd by auto
  from sales waste recv upd inv_sales inv_waste inv_recv inv_upd show ?thesis
    by (intro conjI allI impI) blast+
qed

lemma ex_store_fields:
  "st_allIngredients ex_store = [ex_flour, ex_salt]"
  "st_currentOutletId ex_store = ''o1''"
  "st_allPendingOrders ex_store = [ex_order]"
  by (simp_all add: ex_store_def ex_state_def)

lemma ex_store_menuItems:
  "hook_menuItems ex_store =
     [\<lparr>mi_id = ''m1'', mi_name = ''Bread'', mi_imageUrl = [], mi_sellingPrice = 100,
       mi_targetMargin = 40,
       mi_recipe = [\<lparr>rc_ingredientId = ''i1'', rc_quantity = 3\<rparr>,
                    \<lparr>rc_ingredientId = ''gone'', rc_quantity = 5\<rparr>],
       cogs = 60, actualMargin = 40, marginStatus = Safe\<rparr>]"
  by (simp add: hook_menuItems_def hook_ingredients_def ex_store_def ex_state_def menuItems_def
        costMenuItem_def Let_def recipeOf_def ex_recipes_def ex_item_def ex_flour_def ex_salt_def
        cogsOf_def Map_new_def Map_get_def actualMarginOf_def marginStatusOf_def)

lemma ex_ingredient_fields:
  "ing_id ex_flour = ''i1''" "ing_id ex_salt = ''i2''" "ing_outletId ex_flour = ''o1''"
  "ing_outletId ex_salt = ''o1''" "ing_stockLevel ex_flour = 10" "ing_stockLevel ex_salt = 1"
  by (simp_all add: ex_flour_def ex_salt_def)

theorem C9_stock_mutations_witness:
  "map ing_stockLevel (st_allIngredients ex_store) = [10, 1]
   \<and> map ing_stockLevel
        (st_allIngredients (processDailySales ex_now [''m1'' \<mapsto> 2] ex_store)) = [4, 1]
   \<and> map ing_stockLevel
        (st_allIngredients (processDailySales ex_now [''m1'' \<mapsto> 5] ex_store)) = [0, 1]
   \<and> map ing_stockLevel
        (st_allIngredients
           (addWasteRecord ''w2''
              \<lparr>wi_date = 1000, wi_ingredientId = ''i1'', wi_quantity = 4, wi_reason = ''Spoiled''\<rparr>
              ex_store)) = [6, 1]
   \<and> map ing_stockLevel (st_allIngredients (receiveStock ''p1'' ex_store)) = [15, 1]
   \<and> st_allPendingOrders (receiveStock ''p1'' ex_store) = []
   \<and> map_sum id (map ing_stockLevel \<circ> st_allIngredients)
        (updateIngredientStock None ''i2'' 7 ex_store) = Inr [10, 7]"
proof -
  let ?w = "\<lparr>wi_date = 1000, wi_ingredientId = ''i1'', wi_quantity = 4, wi_reason = ''Spoiled''\<rparr>"
  note f = ex_ingredient_fields
  have ids: "distinct (map ing_id (st_allIngredients ex_store))"
    by (simp add: ex_store_fields ex_flour_def ex_salt_def)
  have nonneg: "\<forall>i \<in> set (st_allIngredients ex_store). 0 \<le> ing_stockLevel i"
    by (simp add: ex_store_fields ex_flour_def ex_salt_def)
  have found: "find (\<lambda>po. po_id po = ''p1'') (hook_pendingOrders ex_store) = Some ex_order"
    by (simp add: hook_pendingOrders_def ex_store_fields ex_order_def)
  have used: "consumedBySales [''m1'' \<mapsto> q] (hook_menuItems ex_store) ''i1'' \<longleftrightarrow> q > 0"
             "\<not> consumedBySales [''m1'' \<mapsto> q] (hook_menuItems ex_store) ''i2''"
             "salesConsumption [''m1'' \<mapsto> q] (hook_menuItems ex_store) ''i1''
                = (if q > 0 then 3 * q else 0)" for q
    by (simp_all add: consumedBySales_def salesConsumption_def ex_store_menuItems soldCountOf_def)
  have ord: "orderedQuantity ex_order ''i1'' = 5" "po_items ex_order
      = [\<lparr>oi_ingredientId = ''i1'', oi_quantityToOrder = 5\<rparr>]" "po_id ex_order = ''p1''"
    by (simp_all add: orderedQuantity_def ex_order_def)
  note T2 = C9_stock_mutations [OF ids nonneg, where now = ex_now
      and sales = "[''m1'' \<mapsto> 2]" and newId = "''w2''" and w = ?w and orderId = "''p1''"
      and k = "''i2''" and v = 7]
  note T5 = C9_stock_mutations [OF ids nonneg, where now = ex_now
      and sales = "[''m1'' \<mapsto> 5]" and newId = "''w2''" and w = ?w and orderId = "''p1''"
      and k = "''i2''" and v = 7]
  have s2: "map ing_stockLevel
        (st_allIngredients (processDailySales ex_now [''m1'' \<mapsto> 2] ex_store)) = [4, 1]"
    using T2 by (simp add: ex_store_fields f used)
  have s5: "map ing_stockLevel
        (st_allIngredients (processDailySales ex_now [''m1'' \<mapsto> 5] ex_store)) = [0, 1]"
    using T5 by (simp add: ex_store_fields f used)
  have wa: "map ing_stockLevel (st_allIngredients (addWasteRecord ''w2'' ?w ex_store)) = [6, 1]"
    using T2 by (simp add: ex_store_fields f)
  have re: "map ing_stockLevel (st_allIngredients (receiveStock ''p1'' ex_store)) = [15, 1]
      \<and> st_allPendingOrders (receiveStock ''p1'' ex_store) = []"
    using T2 found by (simp add: ex_store_fields f ord)
  have up: "map_sum id (map ing_stockLevel \<circ> st_allIngredients)
        (updateIngredientStock None ''i2'' 7 ex_store) = Inr [10, 7]"
    using T2 by (simp add: ex_store_fields f)
  show ?thesis using s2 s5 wa re up by (simp add: ex_store_fields f)
qed

text \<open>
  The claim as written fails in three ways. \<open>updateIngredientStock\<close> with a negative value
  and the receipt of an order with a negative quantity leave a negative stock level; and a
  sale recorded while another outlet is selected is stored but decreases no stock, because
  the recipe's ingredient is not among the outlet's ingredients.
\<close>

theorem C9_negative_stock_counterexample:
  "map ing_stockLevel (st_allIngredients ex_store) = [10, 1]
   \<and> map_sum id (map ing_stockLevel \<circ> st_allIngredients)
        (updateIngredientStock None ''i1'' (- 5) ex_store) = Inr [- 5, 1]
   \<and> map ing_stockLevel (st_allIngredients ex_returned) = [10, 1]
   \<and> map (map oi_quantityToOrder \<circ> po_items) (hook_pendingOrders ex_returned) = [[- 50]]
   \<and> map ing_stockLevel (st_allIngredients (receiveStock ''p1'' ex_returned)) = [- 40, 1]
   \<and> map ing_stockLevel (st_allIngredients ex_elsewhere) = [10, 1]
   \<and> map mi_recipe (hook_menuItems ex_elsewhere)
       = [[\<lparr>rc_ingredientId = ''i1'', rc_quantity = 3\<rparr>,
           \<lparr>rc_ingredientId = ''gone'', rc_quantity = 5\<rparr>]]
   \<and> map sh_quantitySold
        (st_allSalesHistory (processDailySales ex_now [''m1'' \<mapsto> 2] ex_elsewhere)) = [2, 1, 2]
   \<and> map ing_stockLevel
        (st_allIngredients (processDailySales ex_now [''m1'' \<mapsto> 2] ex_elsewhere)) = [10, 1]"
proof -
  note f = ex_ingredient_fields
  have r: "st_allIngredients ex_returned = [ex_flour, ex_salt]"
    "st_currentOutletId ex_returned = ''o1''"
    "st_allPendingOrders ex_returned
       = [ex_order\<lparr>po_items := [\<lparr>oi_ingredientId = ''i1'', oi_quantityToOrder = - 50\<rparr>]\<rparr>]"
    by (simp_all add: ex_returned_def ex_store_def ex_state_def)
  have e: "st_allIngredients ex_elsewhere = [ex_flour, ex_salt]"
    "st_currentOutletId ex_elsewhere = ''o2''"
    "st_allSalesHistory ex_elsewhere = [ex_sale 999 ''m1'' 2 200, ex_sale 998 ''ghost'' 1 50]"
    by (simp_all add: ex_elsewhere_def ex_store_def ex_state_def)
  have em: "hook_ingredients ex_elsewhere = []"
    "hook_menuItems ex_elsewhere =
     [\<lparr>mi_id = ''m1'', mi_name = ''Bread'', mi_imageUrl = [], mi_sellingPrice = 100,
       mi_targetMargin = 40,
       mi_recipe = [\<lparr>rc_ingredientId = ''i1'', rc_quantity = 3\<rparr>,
                    \<lparr>rc_ingredientId = ''gone'', rc_quantity = 5\<rparr>],
       cogs = 0, actualMargin = 100, marginStatus = Safe\<rparr>]"
    by (simp_all add: hook_menuItems_def hook_ingredients_def ex_elsewhere_def ex_store_def
          ex_state_def menuItems_def costMenuItem_def Let_def recipeOf_def ex_recipes_def
          ex_item_def ex_flour_def ex_salt_def cogsOf_def Map_new_def Map_get_def
          actualMarginOf_def marginStatusOf_def)
  have up: "map_sum id (map ing_stockLevel \<circ> st_allIngredients)
        (updateIngredientStock None ''i1'' (- 5) ex_store) = Inr [- 5, 1]"
    by (simp add: updateIngredientStock_def updateIngredient_stockLevel_def ex_store_fields f)
  have re: "map ing_stockLevel (st_allIngredients (receiveStock ''p1'' ex_returned)) = [- 40, 1]"
    by (simp add: receiveStock_def hook_pendingOrders_def r ex_order_def Let_def Map_add_def
          Map_get_def updateIngredient_stockLevel_def f)
  have sa: "map sh_quantitySold
        (st_allSalesHistory (processDailySales ex_now [''m1'' \<mapsto> 2] ex_elsewhere)) = [2, 1, 2]
      \<and> map ing_stockLevel
        (st_allIngredients (processDailySales ex_now [''m1'' \<mapsto> 2] ex_elsewhere)) = [10, 1]"
    by (simp add: processDailySales_def Let_def em e recordSale_def soldCountOf_def
          consumeRecipe_def ex_sale_def f)
  from up re sa show ?thesis
    by (simp add: ex_store_fields r e em f hook_pendingOrders_def ex_order_def)
qed

end
